theory Spec2Isabelle
  imports Complex_Main "HOL-Library.AList"
begin

section \<open>Values of the program\<close>

text \<open>
  The payloads of \<^verbatim>\<open>weather_dashboard.py\<close> are whatever \<^verbatim>\<open>response.json()\<close>
  returns: any JSON value. Python's \<^verbatim>\<open>None\<close> is \<open>JNull\<close>, a \<^verbatim>\<open>dict\<close> is an
  association list in insertion order, and a finite number (an \<^verbatim>\<open>int\<close> of any size
  or a finite \<^verbatim>\<open>float\<close>) is its exact value; the program never computes with one.
  Python's parser also yields the floats that are not finite (it reads \<^verbatim>\<open>1e400\<close> as
  infinity, and accepts \<^verbatim>\<open>Infinity\<close>, \<^verbatim>\<open>-Infinity\<close> and \<^verbatim>\<open>NaN\<close>).
\<close>

datatype nonfinite = PosInfinity | NegInfinity | NaN

datatype json =
    JNull
  | JBool bool
  | JNum rat
  | JNonFinite nonfinite
  | JStr string
  | JArr "json list"
  | JObj "(string \<times> json) list"

text \<open>
  The exceptions the program can meet. Only two classes are named in an
  \<^verbatim>\<open>except\<close> clause of the source: \<^verbatim>\<open>botocore.exceptions.ClientError\<close> (with the
  error code read by \<^verbatim>\<open>e.response['Error']['Code']\<close> and its text) and
  \<^verbatim>\<open>requests.exceptions.RequestException\<close>. \<open>OtherError\<close> is any exception of
  another class (a connection or credential error of the storage client, for example).
\<close>

datatype exn =
    ClientError string string
  | RequestException string
  | KeyError string
  | TypeError string
  | OtherError string

fun exn_str :: "exn \<Rightarrow> string" where
  "exn_str (ClientError code msg) = msg"
| "exn_str (RequestException msg) = msg"
| "exn_str (KeyError k) = k"
| "exn_str (TypeError msg) = msg"
| "exn_str (OtherError msg) = msg"

text \<open>Python truthiness, as \<^verbatim>\<open>if not weather_data\<close> and \<^verbatim>\<open>if a and b\<close> test it.\<close>

fun truthy :: "json \<Rightarrow> bool" where
  "truthy JNull = False"
| "truthy (JBool b) = b"
| "truthy (JNum n) = (n \<noteq> 0)"
| "truthy (JNonFinite x) = True"
| "truthy (JStr s) = (s \<noteq> [])"
| "truthy (JArr xs) = (xs \<noteq> [])"
| "truthy (JObj kvs) = (kvs \<noteq> [])"

text \<open>\<^verbatim>\<open>v[k]\<close> with a string key: only a dict has one, and a missing key raises.\<close>

fun getitem :: "json \<Rightarrow> string \<Rightarrow> exn + json" where
  "getitem (JObj kvs) k = (case map_of kvs k of None \<Rightarrow> Inl (KeyError k) | Some v \<Rightarrow> Inr v)"
| "getitem (JArr xs) k = Inl (TypeError ''list indices must be integers or slices, not str'')"
| "getitem (JStr s) k = Inl (TypeError ''string indices must be integers'')"
| "getitem v k = Inl (TypeError ''object is not subscriptable'')"

text \<open>\<^verbatim>\<open>v[k] = x\<close> with a string key: a dict is updated in place (an existing key
  keeps its position, a new one is appended); every other value raises.\<close>

fun setitem :: "json \<Rightarrow> string \<Rightarrow> json \<Rightarrow> exn + json" where
  "setitem (JObj kvs) k x = Inr (JObj (AList.update k x kvs))"
| "setitem (JArr xs) k x = Inl (TypeError ''list indices must be integers or slices, not str'')"
| "setitem v k x = Inl (TypeError ''object does not support item assignment'')"

text \<open>\<^verbatim>\<open>for entry in v\<close>: a list gives its elements, a string its characters, a dict
  its keys; nothing else is iterable.\<close>

fun iter :: "json \<Rightarrow> exn + json list" where
  "iter (JArr xs) = Inr xs"
| "iter (JStr s) = Inr (map (\<lambda>c. JStr [c]) s)"
| "iter (JObj kvs) = Inr (map (\<lambda>kv. JStr (fst kv)) kvs)"
| "iter v = Inl (TypeError ''object is not iterable'')"

text \<open>A list comprehension \<^verbatim>\<open>[f(entry) for entry in entries]\<close>: in order, stopping at
  the first element that raises.\<close>

fun comprehension :: "('a \<Rightarrow> exn + 'b) \<Rightarrow> 'a list \<Rightarrow> exn + 'b list" where
  "comprehension f [] = Inr []"
| "comprehension f (x # xs) =
     (case f x of
        Inl e \<Rightarrow> Inl e
      | Inr y \<Rightarrow> (case comprehension f xs of Inl e \<Rightarrow> Inl e | Inr ys \<Rightarrow> Inr (y # ys)))"

section \<open>The clock\<close>

record datetime =
  year :: nat
  month :: nat
  day :: nat
  hour :: nat
  minute :: nat
  second :: nat

text \<open>The invariant of Python's \<^verbatim>\<open>datetime\<close> class.\<close>

definition valid_datetime :: "datetime \<Rightarrow> bool" where
  "valid_datetime t \<longleftrightarrow>
     1 \<le> year t \<and> year t \<le> 9999 \<and> 1 \<le> month t \<and> month t \<le> 12 \<and>
     1 \<le> day t \<and> day t \<le> 31 \<and> hour t < 24 \<and> minute t < 60 \<and> second t < 60"

definition digit_char :: "nat \<Rightarrow> char" where
  "digit_char d = ''0123456789'' ! (d mod 10)"

fun show_nat :: "nat \<Rightarrow> string" where
  "show_nat n = (if n < 10 then [digit_char n] else show_nat (n div 10) @ [digit_char (n mod 10)])"

declare show_nat.simps [simp del]

definition zero_pad :: "nat \<Rightarrow> string \<Rightarrow> string" where
  "zero_pad w s = replicate (w - length s) (CHR ''0'') @ s"

text \<open>\<^verbatim>\<open>strftime('%Y%m%d-%H%M%S')\<close>: the year in decimal, as the C library prints
  it (without padding; from the year 1000 on these are its four digits), the other
  fields zero-padded to two digits.\<close>

definition strftime :: "datetime \<Rightarrow> string" where
  "strftime t =
     show_nat (year t) @ zero_pad 2 (show_nat (month t)) @
     zero_pad 2 (show_nat (day t)) @ ''-'' @
     zero_pad 2 (show_nat (hour t)) @ zero_pad 2 (show_nat (minute t)) @
     zero_pad 2 (show_nat (second t))"

text \<open>The format \<^verbatim>\<open>YYYYMMDD-HHMMSS\<close> in the specification's words: the four
  decimal digits of the year, two of the month, two of the day, a hyphen, and two each
  of the hour, the minute and the second. \<open>digits k n\<close> are the \<open>k\<close> low decimal
  digits of \<open>n\<close>, the highest first.\<close>

fun digits :: "nat \<Rightarrow> nat \<Rightarrow> string" where
  "digits 0 n = []"
| "digits (Suc k) n = digits k (n div 10) @ [digit_char (n mod 10)]"

definition yyyymmdd_hhmmss :: "datetime \<Rightarrow> string" where
  "yyyymmdd_hhmmss t =
     digits 4 (year t) @ digits 2 (month t) @ digits 2 (day t) @ ''-'' @
     digits 2 (hour t) @ digits 2 (minute t) @ digits 2 (second t)"

definition is_digit :: "char \<Rightarrow> bool" where
  "is_digit c \<longleftrightarrow> c \<in> set ''0123456789''"

text \<open>The pattern \<^verbatim>\<open>\d{8}-\d{6}\<close>, matched against the whole string.\<close>

definition matches_stamp :: "string \<Rightarrow> bool" where
  "matches_stamp s \<longleftrightarrow>
     length s = 15 \<and> list_all is_digit (take 8 s) \<and> s ! 8 = CHR ''-'' \<and>
     list_all is_digit (drop 9 s)"

section \<open>The world outside the program\<close>

text \<open>
  Every call that leaves the process is recorded in a trace, in order. What the outside
  answers is given by the world: the object store holds the buckets and their objects,
  and four oracles, indexed by the number of calls made so far, give the outcome of an
  HTTP request, a fault of the storage service (an exception raised in place of the
  service's normal answer), an exception raised by a call of the plotting library, and
  the current local time.

  The body of a stored object is the text \<^verbatim>\<open>json.dumps\<close> writes; it is represented
  by the value that Python's \<^verbatim>\<open>json.loads\<close> reads back from that text, which is the
  value dumped (also for \<^verbatim>\<open>Infinity\<close> and \<^verbatim>\<open>NaN\<close>, which a strict JSON
  parser refuses).
\<close>

record response =
  status_code :: nat
  json_body :: "exn + json"

record s3_object =
  body :: json
  content_type :: string

datatype event =
    Http_get string "(string \<times> string) list"
  | Head_bucket string
  | Create_bucket string
  | Put_object string string json string
  | Plt_figure nat nat
  | Plt_plot "json list" "json list" string
  | Plt_title string
  | Plt_xlabel string
  | Plt_ylabel string
  | Plt_grid bool
  | Plt_xticks nat
  | Plt_tight_layout
  | Plt_show

record world =
  http_at :: "nat \<Rightarrow> exn + response"
  s3_fault_at :: "nat \<Rightarrow> exn option"
  plt_fault_at :: "nat \<Rightarrow> exn option"
  time_at :: "nat \<Rightarrow> datetime"
  buckets :: "string \<rightharpoonup> (string \<rightharpoonup> s3_object)"
  trace :: "event list"
  console :: "string list"

definition print :: "string \<Rightarrow> world \<Rightarrow> world" where
  "print s w = w\<lparr>console := console w @ [s]\<rparr>"

definition call :: "event \<Rightarrow> world \<Rightarrow> world" where
  "call ev w = w\<lparr>trace := trace w @ [ev]\<rparr>"

subsection \<open>The HTTP client\<close>

definition requests_get :: "string \<Rightarrow> (string \<times> string) list \<Rightarrow> world \<Rightarrow> (exn + response) \<times> world" where
  "requests_get url params w = (http_at w (length (trace w)), call (Http_get url params) w)"

text \<open>\<^verbatim>\<open>Response.raise_for_status()\<close> raises \<^verbatim>\<open>HTTPError\<close>, a
  \<^verbatim>\<open>RequestException\<close>, for a client error (4xx) or a server error (5xx) and for
  no other status.\<close>

definition raise_for_status :: "response \<Rightarrow> exn option" where
  "raise_for_status r =
     (if 400 \<le> status_code r \<and> status_code r < 500 then Some (RequestException ''Client Error'')
      else if 500 \<le> status_code r \<and> status_code r < 600 then Some (RequestException ''Server Error'')
      else None)"

subsection \<open>The object store\<close>

text \<open>
  Each storage call is recorded and then answered. When the fault oracle holds an
  exception for the call, the call raises it and the store is unchanged. Otherwise the
  store answers by its contents: the probe of an absent bucket raises the
  \<^verbatim>\<open>ClientError\<close> with code 404 and the probe of a present one returns; a creation
  adds an empty bucket; a write stores the object in a present bucket and is refused
  for an absent one.
\<close>

definition head_bucket :: "string \<Rightarrow> world \<Rightarrow> exn option \<times> world" where
  "head_bucket b w =
     (case s3_fault_at w (length (trace w)) of
        Some e \<Rightarrow> (Some e, call (Head_bucket b) w)
      | None \<Rightarrow>
          (if buckets w b = None then Some (ClientError ''404'' ''Not Found'') else None,
           call (Head_bucket b) w))"

definition create_bucket :: "string \<Rightarrow> world \<Rightarrow> exn option \<times> world" where
  "create_bucket b w =
     (case s3_fault_at w (length (trace w)) of
        Some e \<Rightarrow> (Some e, call (Create_bucket b) w)
      | None \<Rightarrow>
          (case buckets w b of
             Some objs \<Rightarrow>
               (Some (ClientError ''BucketAlreadyOwnedByYou'' ''bucket exists''),
                call (Create_bucket b) w)
           | None \<Rightarrow> (None, call (Create_bucket b) (w\<lparr>buckets := (buckets w)(b \<mapsto> Map.empty)\<rparr>))))"

definition put_object :: "string \<Rightarrow> string \<Rightarrow> json \<Rightarrow> string \<Rightarrow> world \<Rightarrow> exn option \<times> world" where
  "put_object b k v ctype w =
     (case s3_fault_at w (length (trace w)) of
        Some e \<Rightarrow> (Some e, call (Put_object b k v ctype) w)
      | None \<Rightarrow>
          (case buckets w b of
             None \<Rightarrow>
               (Some (ClientError ''NoSuchBucket'' ''The specified bucket does not exist''),
                call (Put_object b k v ctype) w)
           | Some objs \<Rightarrow>
               (None,
                call (Put_object b k v ctype)
                  (w\<lparr>buckets := (buckets w)(b \<mapsto> objs(k \<mapsto> \<lparr>body = v, content_type = ctype\<rparr>))\<rparr>))))"

section \<open>The program\<close>

text \<open>A \<^verbatim>\<open>WeatherDashboard\<close> whose constructor found its settings in the
  environment. The storage client is the world's object store.\<close>

record dashboard =
  api_key :: string
  bucket_name :: string

text \<open>\<^verbatim>\<open>create_bucket_if_not_exists\<close>: both \<^verbatim>\<open>except\<close> clauses name
  \<^verbatim>\<open>ClientError\<close>; an exception of another class leaves the method.\<close>

definition create_bucket_if_not_exists :: "dashboard \<Rightarrow> world \<Rightarrow> (exn + unit) \<times> world" where
  "create_bucket_if_not_exists self w =
     (case head_bucket (bucket_name self) w of
        (None, w1) \<Rightarrow> (Inr (), print (''Bucket '' @ bucket_name self @ '' exists'') w1)
      | (Some (ClientError code msg), w1) \<Rightarrow>
          (if code = ''404'' then
             (case create_bucket (bucket_name self)
                     (print (''Creating bucket '' @ bucket_name self) w1) of
                (None, w2) \<Rightarrow>
                  (Inr (), print (''Successfully created bucket '' @ bucket_name self) w2)
              | (Some (ClientError c m), w2) \<Rightarrow>
                  (Inr (), print (''Error creating bucket: '' @ exn_str (ClientError c m)) w2)
              | (Some e, w2) \<Rightarrow> (Inl e, w2))
           else (Inr (), w1))
      | (Some e, w1) \<Rightarrow> (Inl e, w1))"

definition query_params :: "dashboard \<Rightarrow> string \<Rightarrow> (string \<times> string) list" where
  "query_params self city = [(''q'', city), (''appid'', api_key self), (''units'', ''imperial'')]"

text \<open>The body of the \<^verbatim>\<open>try\<close> block of both fetch methods, after
  \<^verbatim>\<open>requests.get\<close> has answered.\<close>

definition response_json :: "exn + response \<Rightarrow> exn + json" where
  "response_json got =
     (case got of
        Inl e \<Rightarrow> Inl e
      | Inr response \<Rightarrow>
          (case raise_for_status response of
             Some e \<Rightarrow> Inl e
           | None \<Rightarrow> json_body response))"

definition fetch_weather :: "dashboard \<Rightarrow> string \<Rightarrow> world \<Rightarrow> (exn + json) \<times> world" where
  "fetch_weather self city w =
     (case requests_get ''http://api.openweathermap.org/data/2.5/weather''
             (query_params self city) w of
        (got, w1) \<Rightarrow>
          (case response_json got of
             Inr v \<Rightarrow> (Inr v, w1)
           | Inl (RequestException m) \<Rightarrow>
               (Inr JNull, print (''Error fetching weather data: '' @ m) w1)
           | Inl e \<Rightarrow> (Inl e, w1)))"

definition fetch_forecast :: "dashboard \<Rightarrow> string \<Rightarrow> world \<Rightarrow> (exn + json) \<times> world" where
  "fetch_forecast self city w =
     (case requests_get ''http://api.openweathermap.org/data/2.5/forecast''
             (query_params self city) w of
        (got, w1) \<Rightarrow>
          (case response_json got of
             Inr v \<Rightarrow> (Inr v, w1)
           | Inl (RequestException m) \<Rightarrow>
               (Inr JNull, print (''Error fetching weather forecast: '' @ m) w1)
           | Inl e \<Rightarrow> (Inl e, w1)))"

text \<open>\<^verbatim>\<open>save_to_s3\<close> changes its argument in place; the model returns the payload
  as the caller sees it afterwards, next to the result. The assignment of the timestamp
  is inside the \<^verbatim>\<open>try\<close> block, but its \<^verbatim>\<open>TypeError\<close> is no
  \<^verbatim>\<open>ClientError\<close>.\<close>

definition save_to_s3 :: "dashboard \<Rightarrow> json \<Rightarrow> string \<Rightarrow> world \<Rightarrow> (exn + bool) \<times> json \<times> world" where
  "save_to_s3 self weather_data file_name w =
     (if \<not> truthy weather_data then (Inr False, weather_data, w)
      else
        (case setitem weather_data ''timestamp''
                (JStr (strftime (time_at w (length (trace w))))) of
           Inl e \<Rightarrow> (Inl e, weather_data, w)
         | Inr stamped \<Rightarrow>
             (case put_object (bucket_name self) (''weather-data/'' @ file_name @ ''.json'')
                     stamped ''application/json'' w of
                (None, w1) \<Rightarrow>
                  (Inr True, stamped,
                   print (''Successfully saved data for '' @ file_name @ '' to S3'') w1)
              | (Some (ClientError c m), w1) \<Rightarrow>
                  (Inr False, stamped,
                   print (''Error saving to S3: '' @ exn_str (ClientError c m)) w1)
              | (Some e, w1) \<Rightarrow> (Inl e, stamped, w1))))"

text \<open>The two list comprehensions of \<^verbatim>\<open>visualize_weather\<close>.\<close>

definition timestamps :: "json \<Rightarrow> exn + json list" where
  "timestamps weather_data =
     (case getitem weather_data ''list'' of
        Inl e \<Rightarrow> Inl e
      | Inr l \<Rightarrow>
          (case iter l of
             Inl e \<Rightarrow> Inl e
           | Inr entries \<Rightarrow> comprehension (\<lambda>entry. getitem entry ''dt_txt'') entries))"

definition temps :: "json \<Rightarrow> exn + json list" where
  "temps weather_data =
     (case getitem weather_data ''list'' of
        Inl e \<Rightarrow> Inl e
      | Inr l \<Rightarrow>
          (case iter l of
             Inl e \<Rightarrow> Inl e
           | Inr entries \<Rightarrow>
               comprehension
                 (\<lambda>entry. case getitem entry ''main'' of
                             Inl e \<Rightarrow> Inl e
                           | Inr m \<Rightarrow> getitem m ''temp'')
                 entries))"

definition chart :: "json list \<Rightarrow> json list \<Rightarrow> event list" where
  "chart xs ys =
     [Plt_figure 10 5, Plt_plot xs ys ''o'', Plt_title ''Temperature Forecast Over Time'',
      Plt_xlabel ''Time'',
      Plt_ylabel (''Temperature ('' @ [CHR 0xC3, CHR 0x82, CHR 0xC2, CHR 0xB0] @ ''F)''),
      Plt_grid True, Plt_xticks 45, Plt_tight_layout, Plt_show]"

text \<open>A call of the plotting library is recorded and may raise (\<^verbatim>\<open>plt.plot\<close> on a
  value it cannot convert, for example); nothing in \<^verbatim>\<open>visualize_weather\<close> catches
  it, so the calls after it are not made.\<close>

definition plt :: "event \<Rightarrow> world \<Rightarrow> exn option \<times> world" where
  "plt ev w = (plt_fault_at w (length (trace w)), call ev w)"

fun plt_all :: "event list \<Rightarrow> world \<Rightarrow> (exn + unit) \<times> world" where
  "plt_all [] w = (Inr (), w)"
| "plt_all (ev # evs) w =
     (case plt ev w of
        (Some e, w1) \<Rightarrow> (Inl e, w1)
      | (None, w1) \<Rightarrow> plt_all evs w1)"

definition visualize_weather :: "json \<Rightarrow> world \<Rightarrow> (exn + unit) \<times> world" where
  "visualize_weather weather_data w =
     (case timestamps weather_data of
        Inl e \<Rightarrow> (Inl e, w)
      | Inr xs \<Rightarrow>
          (case temps weather_data of
             Inl e \<Rightarrow> (Inl e, w)
           | Inr ys \<Rightarrow> plt_all (chart xs ys) w))"

text \<open>One round of the loop of \<^verbatim>\<open>main\<close>.\<close>

definition main_city :: "dashboard \<Rightarrow> string \<Rightarrow> world \<Rightarrow> (exn + unit) \<times> world" where
  "main_city dashboard city w =
     (case fetch_weather dashboard city
             (print (CHR 0x0A # ''Fetching weather for '' @ city @ ''...'') w) of
        (Inl e, w1) \<Rightarrow> (Inl e, w1)
      | (Inr weather_data, w1) \<Rightarrow>
          (case fetch_forecast dashboard city w1 of
             (Inl e, w2) \<Rightarrow> (Inl e, w2)
           | (Inr forecast_data, w2) \<Rightarrow>
               (if truthy weather_data \<and> truthy forecast_data then
                  (case save_to_s3 dashboard weather_data (city @ ''_current'') w2 of
                     (Inl e, weather_data', w3) \<Rightarrow> (Inl e, w3)
                   | (Inr saved, weather_data', w3) \<Rightarrow>
                       (case save_to_s3 dashboard forecast_data (city @ ''_forecast'') w3 of
                          (Inl e, forecast_data', w4) \<Rightarrow> (Inl e, w4)
                        | (Inr saved', forecast_data', w4) \<Rightarrow>
                            (case visualize_weather forecast_data' w4 of
                               (Inl e, w5) \<Rightarrow> (Inl e, w5)
                             | (Inr u, w5) \<Rightarrow>
                                 (Inr (),
                                  print (''Weather and forecast data for '' @ city @
                                         '' saved to S3!'') w5))))
                else (Inr (), print (''Failed to fetch weather data for '' @ city) w2))))"

fun main_loop :: "dashboard \<Rightarrow> string list \<Rightarrow> world \<Rightarrow> (exn + unit) \<times> world" where
  "main_loop dashboard [] w = (Inr (), w)"
| "main_loop dashboard (city # rest) w =
     (case main_city dashboard city w of
        (Inl e, w1) \<Rightarrow> (Inl e, w1)
      | (Inr u, w1) \<Rightarrow> main_loop dashboard rest w1)"

definition cities :: "string list" where
  "cities = [''Philadelphia'', ''Seattle'', ''New York'']"

definition main :: "dashboard \<Rightarrow> world \<Rightarrow> (exn + unit) \<times> world" where
  "main dashboard w =
     (case create_bucket_if_not_exists dashboard w of
        (Inl e, w1) \<Rightarrow> (Inl e, w1)
      | (Inr u, w1) \<Rightarrow> main_loop dashboard cities w1)"

section \<open>Observations on a run\<close>

text \<open>The storage writes and the bucket creations among the calls of a trace.\<close>

fun is_put :: "event \<Rightarrow> bool" where
  "is_put (Put_object b k v ctype) = True"
| "is_put ev = False"

fun is_create :: "event \<Rightarrow> bool" where
  "is_create (Create_bucket b) = True"
| "is_create ev = False"

text \<open>Calling \<^verbatim>\<open>create_bucket_if_not_exists\<close> twice in succession.\<close>

definition ensure_twice :: "dashboard \<Rightarrow> world \<Rightarrow> (exn + unit) \<times> world" where
  "ensure_twice self w =
     (case create_bucket_if_not_exists self w of
        (Inl e, w1) \<Rightarrow> (Inl e, w1)
      | (Inr u, w1) \<Rightarrow> create_bucket_if_not_exists self w1)"

section \<open>Example inputs\<close>

text \<open>The two-entry forecast of the specification's testable properties.\<close>

definition example_forecast :: json where
  "example_forecast =
     JObj [(''list'',
            JArr [JObj [(''dt_txt'', JStr ''2024-01-01 00:00:00''),
                        (''main'', JObj [(''temp'', JNum 32.0)])],
                  JObj [(''dt_txt'', JStr ''2024-01-01 03:00:00''),
                        (''main'', JObj [(''temp'', JNum 35.5)])]])]"

definition example_current :: json where
  "example_current = JObj [(''name'', JStr ''Seattle''), (''main'', JObj [(''temp'', JNum 48)])]"

definition example_dashboard :: dashboard where
  "example_dashboard = \<lparr>api_key = ''key'', bucket_name = ''weather''\<rparr>"

definition example_time :: datetime where
  "example_time = \<lparr>year = 2024, month = 1, day = 5, hour = 3, minute = 4, second = 59\<rparr>"

text \<open>A world at the start of a run: nothing called, nothing printed.\<close>

definition world_of ::
  "(nat \<Rightarrow> exn + response) \<Rightarrow> (nat \<Rightarrow> exn option) \<Rightarrow> (string \<rightharpoonup> (string \<rightharpoonup> s3_object)) \<Rightarrow> world" where
  "world_of http faults store =
     \<lparr>http_at = http, s3_fault_at = faults, plt_fault_at = (\<lambda>i. None),
      time_at = (\<lambda>i. example_time),
      buckets = store, trace = [], console = []\<rparr>"

definition ok :: "json \<Rightarrow> exn + response" where
  "ok v = Inr \<lparr>status_code = 200, json_body = Inr v\<rparr>"

text \<open>The first request is answered with the current conditions; every later one fails
  in transport.\<close>

definition forecast_down :: world where
  "forecast_down =
     world_of (\<lambda>i. if i = 0 then ok example_current
                    else Inl (RequestException ''connection refused''))
       (\<lambda>i. None) [''weather'' \<mapsto> Map.empty]"

text \<open>Every request is answered with an empty JSON object.\<close>

definition empty_answers :: world where
  "empty_answers = world_of (\<lambda>i. ok (JObj [])) (\<lambda>i. None) [''weather'' \<mapsto> Map.empty]"

text \<open>Storage worlds: a bucket owned by someone else (every call is refused), a storage
  endpoint that cannot be reached, a bucket that is absent and whose first creation is
  rejected, and a bucket that is absent with a storage service that works.\<close>

definition forbidden :: world where
  "forbidden =
     world_of (\<lambda>i. ok JNull) (\<lambda>i. Some (ClientError ''403'' ''Forbidden'')) Map.empty"

definition unreachable :: world where
  "unreachable =
     world_of (\<lambda>i. ok JNull) (\<lambda>i. Some (OtherError ''EndpointConnectionError'')) Map.empty"

definition creation_fails :: world where
  "creation_fails =
     world_of (\<lambda>i. ok JNull)
       (\<lambda>i. if i = 1 then Some (ClientError ''IllegalLocationConstraintException''
                                  ''The unspecified location constraint is incompatible'')
             else None)
       Map.empty"

definition no_bucket :: world where
  "no_bucket = world_of (\<lambda>i. ok JNull) (\<lambda>i. None) Map.empty"

text \<open>HTTP worlds: no connection, a rejected API key (401), and a final answer with a
  status that is neither a success nor an error (300) and a JSON body.\<close>

definition offline :: world where
  "offline = world_of (\<lambda>i. Inl (RequestException ''connection refused'')) (\<lambda>i. None) Map.empty"

definition unauthorized :: world where
  "unauthorized =
     world_of (\<lambda>i. Inr \<lparr>status_code = 401,
                          json_body = Inr (JObj [(''cod'', JNum 401), (''message'', JStr ''Invalid API key'')])\<rparr>)
       (\<lambda>i. None) Map.empty"

definition multiple_choices :: world where
  "multiple_choices =
     world_of (\<lambda>i. Inr \<lparr>status_code = 300, json_body = Inr (JObj [(''cod'', JNum 300)])\<rparr>)
       (\<lambda>i. None) Map.empty"

text \<open>Two parts of \<^verbatim>\<open>save_to_s3\<close> on a dict, named for the statements below: the
  payload after the assignment of the timestamp, and the \<^verbatim>\<open>put_object\<close> call.\<close>

definition stamped :: "world \<Rightarrow> (string \<times> json) list \<Rightarrow> json" where
  "stamped w kvs =
     JObj (AList.update ''timestamp'' (JStr (strftime (time_at w (length (trace w))))) kvs)"

definition upload :: "dashboard \<Rightarrow> string \<Rightarrow> json \<Rightarrow> world \<Rightarrow> exn option \<times> world" where
  "upload self file_name v w =
     put_object (bucket_name self) (''weather-data/'' @ file_name @ ''.json'') v
       ''application/json'' w"

text \<open>An outcome of a storage call that \<^verbatim>\<open>except ClientError\<close> lets the caller
  survive: no exception, or a \<^verbatim>\<open>ClientError\<close>.\<close>

fun client_error_or_none :: "exn option \<Rightarrow> bool" where
  "client_error_or_none None = True"
| "client_error_or_none (Some (ClientError c m)) = True"
| "client_error_or_none (Some e) = False"

text \<open>Both requests of a city are answered: with the example payloads, and with an empty
  object for the current conditions.\<close>

definition both_up :: world where
  "both_up =
     world_of (\<lambda>i. if i = 0 then ok example_current else ok example_forecast)
       (\<lambda>i. None) [''weather'' \<mapsto> Map.empty]"

definition empty_current :: world where
  "empty_current =
     world_of (\<lambda>i. if i = 0 then ok (JObj []) else ok example_forecast)
       (\<lambda>i. None) [''weather'' \<mapsto> Map.empty]"

text \<open>A later world of the same run: its trace continues the trace of the earlier one.\<close>

definition extends :: "world \<Rightarrow> world \<Rightarrow> bool" where
  "extends w w' \<longleftrightarrow> (\<exists>evs. trace w' = trace w @ evs)"

text \<open>The request for the current conditions fails in transport; the forecast is answered
  with status 200 and a body from which \<^verbatim>\<open>response.json()\<close> raises an exception
  that is no \<^verbatim>\<open>RequestException\<close>.\<close>

definition forecast_crashes :: world where
  "forecast_crashes =
     world_of (\<lambda>i. if i = 0 then Inl (RequestException ''connection refused'')
                    else Inr \<lparr>status_code = 200, json_body = Inl (OtherError ''ValueError'')\<rparr>)
       (\<lambda>i. None) [''weather'' \<mapsto> Map.empty]"

text \<open>A value that standard JSON can write: no float that is not finite occurs in it.
  For such a value the text of \<^verbatim>\<open>json.dumps\<close> is standard JSON; for the others it
  holds \<^verbatim>\<open>Infinity\<close> or \<^verbatim>\<open>NaN\<close>, which only Python's own parser reads.\<close>

fun standard_json :: "json \<Rightarrow> bool" where
  "standard_json (JNonFinite x) = False"
| "standard_json (JArr xs) = list_all standard_json xs"
| "standard_json (JObj kvs) = list_all (\<lambda>kv. standard_json (snd kv)) kvs"
| "standard_json v = True"

section \<open>What every call leaves in the world\<close>

lemma fetch_weather_trace:
  "trace (snd (fetch_weather self city w)) =
     trace w @
     [Http_get ''http://api.openweathermap.org/data/2.5/weather'' (query_params self city)]"
  by (simp add: fetch_weather_def requests_get_def call_def print_def
      split: sum.splits exn.splits)

lemma fetch_forecast_trace:
  "trace (snd (fetch_forecast self city w)) =
     trace w @
     [Http_get ''http://api.openweathermap.org/data/2.5/forecast'' (query_params self city)]"
  by (simp add: fetch_forecast_def requests_get_def call_def print_def
      split: sum.splits exn.splits)

lemma fetch_weather_buckets: "buckets (snd (fetch_weather self city w)) = buckets w"
  by (simp add: fetch_weather_def requests_get_def call_def print_def
      split: sum.splits exn.splits)

lemma fetch_forecast_buckets: "buckets (snd (fetch_forecast self city w)) = buckets w"
  by (simp add: fetch_forecast_def requests_get_def call_def print_def
      split: sum.splits exn.splits)

lemma two_fetches_trace:
  assumes "fetch_weather self city (print s w) = (r1, w1)"
    and "fetch_forecast self city w1 = (r2, w2)"
  shows "trace w2 =
           trace w @
           [Http_get ''http://api.openweathermap.org/data/2.5/weather'' (query_params self city),
            Http_get ''http://api.openweathermap.org/data/2.5/forecast'' (query_params self city)]"
    and "buckets w2 = buckets w"
proof -
  have 1: "w1 = snd (fetch_weather self city (print s w))" using assms(1) by simp
  have 2: "w2 = snd (fetch_forecast self city w1)" using assms(2) by simp
  show "trace w2 =
           trace w @
           [Http_get ''http://api.openweathermap.org/data/2.5/weather'' (query_params self city),
            Http_get ''http://api.openweathermap.org/data/2.5/forecast'' (query_params self city)]"
    unfolding 2 fetch_forecast_trace unfolding 1 fetch_weather_trace by (simp add: print_def)
  show "buckets w2 = buckets w"
    unfolding 2 fetch_forecast_buckets unfolding 1 fetch_weather_buckets by (simp add: print_def)
qed

section \<open>The orchestrator\<close>

lemma main_city_falsy:
  assumes "fetch_weather self city
             (print (CHR 0x0A # ''Fetching weather for '' @ city @ ''...'') w) = (Inr a, w1)"
    and "fetch_forecast self city w1 = (Inr b, w2)"
    and "\<not> truthy a \<or> \<not> truthy b"
  shows "main_city self city w =
           (Inr (), print (''Failed to fetch weather data for '' @ city) w2)"
  using assms by (auto simp add: main_city_def)

text \<open>
  Claim C10. \<^verbatim>\<open>save_to_s3\<close> returns \<^verbatim>\<open>False\<close> for every payload that is falsy
  in Python, the empty JSON object as well as \<^verbatim>\<open>None\<close>: the payload gets no
  timestamp and the world is unchanged (no clock read, no storage call). The loop of
  \<^verbatim>\<open>main\<close> takes an empty object from either fetch for a failed fetch: it prints the
  failure line, and the two GET requests are the only calls of the round.
\<close>

theorem falsy_payload_is_failure:
  "(\<not> truthy p \<longrightarrow> save_to_s3 self p name w = (Inr False, p, w)) \<and>
   \<not> truthy (JObj []) \<and> \<not> truthy JNull \<and>
   (fetch_weather self city
      (print (CHR 0x0A # ''Fetching weather for '' @ city @ ''...'') w) = (Inr a, w1) \<and>
    fetch_forecast self city w1 = (Inr b, w2) \<and> (a = JObj [] \<or> b = JObj []) \<longrightarrow>
    main_city self city w =
      (Inr (), print (''Failed to fetch weather data for '' @ city) w2) \<and>
    trace w2 =
      trace w @
      [Http_get ''http://api.openweathermap.org/data/2.5/weather'' (query_params self city),
       Http_get ''http://api.openweathermap.org/data/2.5/forecast'' (query_params self city)] \<and>
    buckets w2 = buckets w)"
proof -
  have "main_city self city w =
          (Inr (), print (''Failed to fetch weather data for '' @ city) w2) \<and>
        trace w2 =
          trace w @
          [Http_get ''http://api.openweathermap.org/data/2.5/weather'' (query_params self city),
           Http_get ''http://api.openweathermap.org/data/2.5/forecast'' (query_params self city)] \<and>
        buckets w2 = buckets w"
    if h1: "fetch_weather self city
              (print (CHR 0x0A # ''Fetching weather for '' @ city @ ''...'') w) = (Inr a, w1)"
      and h2: "fetch_forecast self city w1 = (Inr b, w2)"
      and h3: "a = JObj [] \<or> b = JObj []"
  proof -
    have falsy: "\<not> truthy a \<or> \<not> truthy b" using h3 by auto
    show ?thesis
      using main_city_falsy [OF h1 h2 falsy] two_fetches_trace [OF h1 h2] by simp
  qed
  then show ?thesis by (simp add: save_to_s3_def)
qed

theorem falsy_payload_is_failure_witness:
  "save_to_s3 example_dashboard (JObj []) ''Seattle_current'' empty_answers =
     (Inr False, JObj [], empty_answers) \<and>
   fst (main_city example_dashboard ''Seattle'' empty_answers) = Inr () \<and>
   trace (snd (main_city example_dashboard ''Seattle'' empty_answers)) =
     [Http_get ''http://api.openweathermap.org/data/2.5/weather''
        [(''q'', ''Seattle''), (''appid'', ''key''), (''units'', ''imperial'')],
      Http_get ''http://api.openweathermap.org/data/2.5/forecast''
        [(''q'', ''Seattle''), (''appid'', ''key''), (''units'', ''imperial'')]] \<and>
   console (snd (main_city example_dashboard ''Seattle'' empty_answers)) =
     [CHR 0x0A # ''Fetching weather for Seattle...'',
      ''Failed to fetch weather data for Seattle'']"
proof -
  let ?w0 = "print (CHR 0x0A # ''Fetching weather for '' @ ''Seattle'' @ ''...'') empty_answers"
  let ?w1 = "snd (fetch_weather example_dashboard ''Seattle'' ?w0)"
  let ?w2 = "snd (fetch_forecast example_dashboard ''Seattle'' ?w1)"
  have h1: "fetch_weather example_dashboard ''Seattle'' ?w0 = (Inr (JObj []), ?w1)"
    by (simp add: fetch_weather_def requests_get_def response_json_def raise_for_status_def
        empty_answers_def world_of_def ok_def print_def call_def)
  have h2: "fetch_forecast example_dashboard ''Seattle'' ?w1 = (Inr (JObj []), ?w2)"
    by (simp add: fetch_weather_def fetch_forecast_def requests_get_def response_json_def
        raise_for_status_def empty_answers_def world_of_def ok_def print_def call_def)
  have c: "console ?w2 = [CHR 0x0A # ''Fetching weather for Seattle...'']"
    by (simp add: fetch_weather_def fetch_forecast_def requests_get_def response_json_def
        raise_for_status_def empty_answers_def world_of_def ok_def print_def call_def)
  have k: "api_key example_dashboard = ''key''" by (simp add: example_dashboard_def)
  have t: "trace empty_answers = []" by (simp add: empty_answers_def world_of_def)
  have f: "\<not> truthy (JObj [])" by simp
  show ?thesis
    using falsy_payload_is_failure
      [of "JObj []" example_dashboard "''Seattle_current''" empty_answers "''Seattle''"
          "JObj []" ?w1 "JObj []" ?w2] h1 h2 c
    by (auto simp add: query_params_def k t print_def)
qed

section \<open>The visualizer\<close>

lemma comprehension_total:
  assumes "\<forall>x \<in> set xs. \<exists>y. f x = Inr y"
  shows "\<exists>ys. comprehension f xs = Inr ys \<and> length ys = length xs \<and>
              (\<forall>i < length xs. f (xs ! i) = Inr (ys ! i))"
  using assms
proof (induction xs)
  case Nil
  then show ?case by simp
next
  case (Cons x xs)
  from Cons.prems obtain y where y: "f x = Inr y" by auto
  from Cons.prems have "\<forall>x \<in> set xs. \<exists>y. f x = Inr y" by simp
  from Cons.IH [OF this] obtain ys where ys: "comprehension f xs = Inr ys"
    "length ys = length xs" "\<forall>i < length xs. f (xs ! i) = Inr (ys ! i)" by blast
  have "\<forall>i < length (x # xs). f ((x # xs) ! i) = Inr ((y # ys) ! i)"
    using y ys(3) by (auto simp add: nth_Cons split: nat.splits)
  then show ?case using y ys(1,2) by simp
qed

lemma plt_all_trace: "\<exists>n. trace (snd (plt_all evs w)) = trace w @ take n evs"
proof (induction evs arbitrary: w)
  case Nil
  then show ?case by simp
next
  case (Cons ev evs)
  show ?case
  proof (cases "plt_fault_at w (length (trace w))")
    case (Some e)
    then have "trace (snd (plt_all (ev # evs) w)) = trace w @ take 1 (ev # evs)"
      by (simp add: plt_def call_def)
    then show ?thesis by blast
  next
    case None
    from Cons.IH [of "call ev w"] obtain n where
      "trace (snd (plt_all evs (call ev w))) = trace (call ev w) @ take n evs" by blast
    then have "trace (snd (plt_all (ev # evs) w)) = trace w @ take (Suc n) (ev # evs)"
      using None by (simp add: plt_def call_def)
    then show ?thesis by blast
  qed
qed

lemma plot_called:
  assumes "plt_fault_at w (length (trace w)) = None"
  shows "take 2 (drop (length (trace w)) (trace (snd (plt_all (chart xs ys) w)))) =
           [Plt_figure 10 5, Plt_plot xs ys ''o'']"
proof -
  let ?rest = "[Plt_title ''Temperature Forecast Over Time'', Plt_xlabel ''Time'',
      Plt_ylabel (''Temperature ('' @ [CHR 0xC3, CHR 0x82, CHR 0xC2, CHR 0xB0] @ ''F)''),
      Plt_grid True, Plt_xticks 45, Plt_tight_layout, Plt_show]"
  let ?w1 = "call (Plt_figure 10 5) w"
  let ?w2 = "call (Plt_plot xs ys ''o'') ?w1"
  have t2: "trace ?w2 = trace w @ [Plt_figure 10 5, Plt_plot xs ys ''o'']"
    by (simp add: call_def)
  obtain n where n: "trace (snd (plt_all ?rest ?w2)) = trace ?w2 @ take n ?rest"
    using plt_all_trace by blast
  have "trace (snd (plt_all (chart xs ys) w)) = trace ?w2 \<or>
        trace (snd (plt_all (chart xs ys) w)) = trace ?w2 @ take n ?rest"
    using assms n by (cases "plt_fault_at ?w1 (length (trace ?w1))") (simp_all add: chart_def plt_def)
  then show ?thesis unfolding t2 by auto
qed

text \<open>
  Claim C6. For a forecast whose \<^verbatim>\<open>list\<close> is a list of entries that each have a
  \<^verbatim>\<open>dt_txt\<close> and a \<^verbatim>\<open>main.temp\<close>, the visualizer computes the series of the
  \<^verbatim>\<open>dt_txt\<close> values and the series of the \<^verbatim>\<open>main.temp\<close> values, entry by
  entry in the order of the list, and goes on to the plotting calls with these two
  series: once \<^verbatim>\<open>plt.figure\<close> has returned, \<^verbatim>\<open>plt.plot\<close> is called with the
  first series as x and the second as y. For the two-entry example the series are the
  two timestamps and 32.0, 35.5.
\<close>

theorem visualizer_series:
  assumes "getitem forecast ''list'' = Inr (JArr entries)"
    and "\<forall>entry \<in> set entries.
           (\<exists>s. getitem entry ''dt_txt'' = Inr s) \<and>
           (\<exists>m t. getitem entry ''main'' = Inr m \<and> getitem m ''temp'' = Inr t)"
  shows "\<exists>xs ys.
           timestamps forecast = Inr xs \<and> temps forecast = Inr ys \<and>
           length xs = length entries \<and> length ys = length entries \<and>
           (\<forall>i < length entries.
              getitem (entries ! i) ''dt_txt'' = Inr (xs ! i) \<and>
              (\<exists>m. getitem (entries ! i) ''main'' = Inr m \<and> getitem m ''temp'' = Inr (ys ! i))) \<and>
           visualize_weather forecast w = plt_all (chart xs ys) w \<and>
           (plt_fault_at w (length (trace w)) = None \<longrightarrow>
              take 2 (drop (length (trace w)) (trace (snd (visualize_weather forecast w)))) =
                [Plt_figure 10 5, Plt_plot xs ys ''o'']) \<and>
           timestamps example_forecast =
             Inr [JStr ''2024-01-01 00:00:00'', JStr ''2024-01-01 03:00:00''] \<and>
           temps example_forecast = Inr [JNum 32.0, JNum 35.5]"
proof -
  let ?temp = "\<lambda>entry. case getitem entry ''main'' of Inl e \<Rightarrow> Inl e | Inr m \<Rightarrow> getitem m ''temp''"
  have "\<forall>entry \<in> set entries. \<exists>y. getitem entry ''dt_txt'' = Inr y"
    using assms(2) by blast
  from comprehension_total [OF this] obtain xs where xs:
    "comprehension (\<lambda>entry. getitem entry ''dt_txt'') entries = Inr xs"
    "length xs = length entries"
    "\<forall>i < length entries. getitem (entries ! i) ''dt_txt'' = Inr (xs ! i)" by blast
  have "\<forall>entry \<in> set entries. \<exists>y. ?temp entry = Inr y"
    using assms(2) by fastforce
  from comprehension_total [OF this] obtain ys where ys:
    "comprehension ?temp entries = Inr ys"
    "length ys = length entries"
    "\<forall>i < length entries. ?temp (entries ! i) = Inr (ys ! i)" by blast
  have t1: "timestamps forecast = Inr xs"
    by (simp add: timestamps_def assms(1) xs(1))
  have t2: "temps forecast = Inr ys"
    by (simp add: temps_def assms(1) ys(1))
  have main: "\<forall>i < length entries.
      \<exists>m. getitem (entries ! i) ''main'' = Inr m \<and> getitem m ''temp'' = Inr (ys ! i)"
  proof (intro allI impI)
    fix i assume "i < length entries"
    then have "?temp (entries ! i) = Inr (ys ! i)" using ys(3) by blast
    then show "\<exists>m. getitem (entries ! i) ''main'' = Inr m \<and> getitem m ''temp'' = Inr (ys ! i)"
      by (cases "getitem (entries ! i) ''main''") simp_all
  qed
  have v: "visualize_weather forecast w = plt_all (chart xs ys) w"
    by (simp add: visualize_weather_def t1 t2)
  have p: "plt_fault_at w (length (trace w)) = None \<longrightarrow>
              take 2 (drop (length (trace w)) (trace (snd (visualize_weather forecast w)))) =
                [Plt_figure 10 5, Plt_plot xs ys ''o'']"
    unfolding v using plot_called [of w xs ys] by blast
  have e1: "timestamps example_forecast =
      Inr [JStr ''2024-01-01 00:00:00'', JStr ''2024-01-01 03:00:00'']"
    by (simp add: timestamps_def example_forecast_def)
  have e2: "temps example_forecast = Inr [JNum 32.0, JNum 35.5]"
    by (simp add: temps_def example_forecast_def)
  show ?thesis
  proof (intro exI conjI)
    show "timestamps forecast = Inr xs" by (rule t1)
    show "temps forecast = Inr ys" by (rule t2)
    show "length xs = length entries" by (rule xs(2))
    show "length ys = length entries" by (rule ys(2))
    show "\<forall>i < length entries.
              getitem (entries ! i) ''dt_txt'' = Inr (xs ! i) \<and>
              (\<exists>m. getitem (entries ! i) ''main'' = Inr m \<and> getitem m ''temp'' = Inr (ys ! i))"
      using xs(3) main by blast
    show "visualize_weather forecast w = plt_all (chart xs ys) w" by (rule v)
    show "plt_fault_at w (length (trace w)) = None \<longrightarrow>
              take 2 (drop (length (trace w)) (trace (snd (visualize_weather forecast w)))) =
                [Plt_figure 10 5, Plt_plot xs ys ''o'']" by (rule p)
    show "timestamps example_forecast =
      Inr [JStr ''2024-01-01 00:00:00'', JStr ''2024-01-01 03:00:00'']" by (rule e1)
    show "temps example_forecast = Inr [JNum 32.0, JNum 35.5]" by (rule e2)
  qed
qed

theorem visualizer_series_witness:
  "visualize_weather example_forecast (world_of (\<lambda>i. ok JNull) (\<lambda>i. None) Map.empty) =
     (Inr (),
      (world_of (\<lambda>i. ok JNull) (\<lambda>i. None) Map.empty)
        \<lparr>trace := chart [JStr ''2024-01-01 00:00:00'', JStr ''2024-01-01 03:00:00'']
                         [JNum 32.0, JNum 35.5]\<rparr>) \<and>
   take 2 (trace (snd (visualize_weather example_forecast
                         (world_of (\<lambda>i. ok JNull) (\<lambda>i. None) Map.empty)))) =
     [Plt_figure 10 5,
      Plt_plot [JStr ''2024-01-01 00:00:00'', JStr ''2024-01-01 03:00:00'']
        [JNum 32.0, JNum 35.5] ''o'']"
proof -
  let ?entries = "[JObj [(''dt_txt'', JStr ''2024-01-01 00:00:00''),
                        (''main'', JObj [(''temp'', JNum 32.0)])],
                  JObj [(''dt_txt'', JStr ''2024-01-01 03:00:00''),
                        (''main'', JObj [(''temp'', JNum 35.5)])]]"
  let ?w = "world_of (\<lambda>i. ok JNull) (\<lambda>i. None) Map.empty"
  have h1: "getitem example_forecast ''list'' = Inr (JArr ?entries)"
    by (simp add: example_forecast_def)
  have h2: "\<forall>entry \<in> set ?entries.
           (\<exists>s. getitem entry ''dt_txt'' = Inr s) \<and>
           (\<exists>m t. getitem entry ''main'' = Inr m \<and> getitem m ''temp'' = Inr t)"
    by simp
  have t: "trace ?w = []" "plt_fault_at ?w (length (trace ?w)) = None"
    by (simp_all add: world_of_def)
  from visualizer_series [OF h1 h2, of ?w] obtain xs ys where
    a: "timestamps example_forecast = Inr xs" "temps example_forecast = Inr ys"
       "visualize_weather example_forecast ?w = plt_all (chart xs ys) ?w"
       "plt_fault_at ?w (length (trace ?w)) = None \<longrightarrow>
          take 2 (drop (length (trace ?w)) (trace (snd (visualize_weather example_forecast ?w)))) =
            [Plt_figure 10 5, Plt_plot xs ys ''o'']"
       "timestamps example_forecast =
          Inr [JStr ''2024-01-01 00:00:00'', JStr ''2024-01-01 03:00:00'']"
       "temps example_forecast = Inr [JNum 32.0, JNum 35.5]"
    by (elim exE conjE)
  have x: "xs = [JStr ''2024-01-01 00:00:00'', JStr ''2024-01-01 03:00:00'']"
    using a(1) a(5) by simp
  have y: "ys = [JNum 32.0, JNum 35.5]" using a(2) a(6) by simp
  have run: "plt_all (chart xs ys) ?w = (Inr (), ?w\<lparr>trace := chart xs ys\<rparr>)"
    by (simp add: chart_def plt_def call_def world_of_def)
  show ?thesis using a(3) a(4) run t x y by simp
qed

section \<open>The storage bootstrap\<close>

lemmas s3_defs = head_bucket_def create_bucket_def put_object_def call_def print_def

lemma ensure_trace:
  "trace (snd (create_bucket_if_not_exists self w)) = trace w @ [Head_bucket (bucket_name self)] \<or>
   trace (snd (create_bucket_if_not_exists self w)) =
     trace w @ [Head_bucket (bucket_name self), Create_bucket (bucket_name self)]"
  by (simp add: create_bucket_if_not_exists_def s3_defs split: option.splits exn.splits)

lemma ensure_faults:
  "s3_fault_at (snd (create_bucket_if_not_exists self w)) = s3_fault_at w"
  by (simp add: create_bucket_if_not_exists_def s3_defs split: option.splits exn.splits)

lemma ensure_keeps_bucket:
  "buckets w b \<noteq> None \<Longrightarrow> buckets (snd (create_bucket_if_not_exists self w)) b \<noteq> None"
  by (auto simp add: create_bucket_if_not_exists_def s3_defs split: option.splits exn.splits)

lemma ensure_created:
  assumes "fst (head_bucket (bucket_name self) w) = Some (ClientError ''404'' msg)"
    and "fst (create_bucket (bucket_name self)
           (print (''Creating bucket '' @ bucket_name self)
              (snd (head_bucket (bucket_name self) w)))) = None"
  shows "buckets (snd (create_bucket_if_not_exists self w)) (bucket_name self) \<noteq> None"
  using assms
  by (simp add: create_bucket_if_not_exists_def s3_defs split: option.splits exn.splits if_splits)

lemma ensure_existing:
  assumes "buckets w (bucket_name self) \<noteq> None"
    and "s3_fault_at w (length (trace w)) = None"
  shows "create_bucket_if_not_exists self w =
           (Inr (), print (''Bucket '' @ bucket_name self @ '' exists'')
                      (call (Head_bucket (bucket_name self)) w))"
  using assms by (auto simp add: create_bucket_if_not_exists_def head_bucket_def)

text \<open>
  Claim C3, amended. No \<^verbatim>\<open>ClientError\<close> ever leaves
  \<^verbatim>\<open>create_bucket_if_not_exists\<close>. When the probe raises a \<^verbatim>\<open>ClientError\<close>
  whose code is not 404, the method returns normally and attempts no creation. When the
  probe reports 404 and the creation raises a \<^verbatim>\<open>ClientError\<close>, the method returns
  normally and the creation error is printed.
\<close>

theorem client_errors_are_caught:
  "(\<forall>c' m'. fst (create_bucket_if_not_exists self w) \<noteq> Inl (ClientError c' m')) \<and>
   (fst (head_bucket (bucket_name self) w) = Some (ClientError code msg) \<and> code \<noteq> ''404'' \<longrightarrow>
      fst (create_bucket_if_not_exists self w) = Inr () \<and>
      trace (snd (create_bucket_if_not_exists self w)) =
        trace w @ [Head_bucket (bucket_name self)]) \<and>
   (fst (head_bucket (bucket_name self) w) = Some (ClientError ''404'' msg) \<and>
    fst (create_bucket (bucket_name self)
           (print (''Creating bucket '' @ bucket_name self)
              (snd (head_bucket (bucket_name self) w)))) = Some (ClientError c m) \<longrightarrow>
      fst (create_bucket_if_not_exists self w) = Inr () \<and>
      console (snd (create_bucket_if_not_exists self w)) =
        console w @ [''Creating bucket '' @ bucket_name self, ''Error creating bucket: '' @ m])"
proof (intro conjI allI impI)
  fix c' m'
  show "fst (create_bucket_if_not_exists self w) \<noteq> Inl (ClientError c' m')"
    by (simp add: create_bucket_if_not_exists_def split: prod.splits option.splits exn.splits)
next
  assume "fst (head_bucket (bucket_name self) w) = Some (ClientError code msg) \<and> code \<noteq> ''404''"
  then show "fst (create_bucket_if_not_exists self w) = Inr ()"
    and "trace (snd (create_bucket_if_not_exists self w)) =
        trace w @ [Head_bucket (bucket_name self)]"
    by (auto simp add: create_bucket_if_not_exists_def s3_defs split: prod.splits option.splits if_splits)
next
  assume a: "fst (head_bucket (bucket_name self) w) = Some (ClientError ''404'' msg) \<and>
    fst (create_bucket (bucket_name self)
           (print (''Creating bucket '' @ bucket_name self)
              (snd (head_bucket (bucket_name self) w)))) = Some (ClientError c m)"
  then show "fst (create_bucket_if_not_exists self w) = Inr ()"
    by (auto simp add: create_bucket_if_not_exists_def split: prod.splits)
  from a show "console (snd (create_bucket_if_not_exists self w)) =
        console w @ [''Creating bucket '' @ bucket_name self, ''Error creating bucket: '' @ m]"
    by (auto simp add: create_bucket_if_not_exists_def s3_defs split: prod.splits option.splits if_splits)
qed

theorem client_errors_are_caught_witness:
  "fst (create_bucket_if_not_exists example_dashboard forbidden) = Inr () \<and>
   trace (snd (create_bucket_if_not_exists example_dashboard forbidden)) = [Head_bucket ''weather''] \<and>
   fst (create_bucket_if_not_exists example_dashboard creation_fails) = Inr () \<and>
   console (snd (create_bucket_if_not_exists example_dashboard creation_fails)) =
     [''Creating bucket weather'',
      ''Error creating bucket: The unspecified location constraint is incompatible'']"
proof -
  have b: "bucket_name example_dashboard = ''weather''" by (simp add: example_dashboard_def)
  have h1: "fst (head_bucket (bucket_name example_dashboard) forbidden) =
              Some (ClientError ''403'' ''Forbidden'') \<and> ''403'' \<noteq> ''404''"
    by (simp add: b head_bucket_def forbidden_def world_of_def)
  have h2: "fst (head_bucket (bucket_name example_dashboard) creation_fails) =
              Some (ClientError ''404'' ''Not Found'') \<and>
            fst (create_bucket (bucket_name example_dashboard)
                   (print (''Creating bucket '' @ bucket_name example_dashboard)
                      (snd (head_bucket (bucket_name example_dashboard) creation_fails)))) =
              Some (ClientError ''IllegalLocationConstraintException''
                      ''The unspecified location constraint is incompatible'')"
    by (simp add: b s3_defs creation_fails_def world_of_def)
  have t: "trace forbidden = []" "console creation_fails = []"
    by (simp_all add: forbidden_def creation_fails_def world_of_def)
  show ?thesis
    using client_errors_are_caught [of example_dashboard forbidden "''403''" "''Forbidden''"] h1
      client_errors_are_caught [of example_dashboard creation_fails _ "''Not Found''"
         "''IllegalLocationConstraintException''"
         "''The unspecified location constraint is incompatible''"] h2
    by (simp add: b t)
qed

text \<open>
  Claim C3 as stated fails twice over. A storage error that is no \<^verbatim>\<open>ClientError\<close>
  (the endpoint cannot be reached) is not caught and leaves the method; and a
  \<^verbatim>\<open>ClientError\<close> of the probe with a code other than 404 is caught, but nothing is
  printed for it.
\<close>

theorem uncaught_or_unlogged_counterexample:
  "fst (create_bucket_if_not_exists example_dashboard unreachable) =
     Inl (OtherError ''EndpointConnectionError'') \<and>
   fst (create_bucket_if_not_exists example_dashboard forbidden) = Inr () \<and>
   console (snd (create_bucket_if_not_exists example_dashboard forbidden)) = []"
  by (simp add: create_bucket_if_not_exists_def s3_defs example_dashboard_def
      unreachable_def forbidden_def world_of_def)


text \<open>
  Claim C8, amended. When the bucket exists before the first call, or the first call
  creates it, and the storage service answers the second probe without a fault, the
  second call's probe succeeds, the second call only prints that the bucket exists, and
  the two calls together make at most one creation call.
\<close>

theorem second_ensure_creates_nothing:
  assumes "buckets w (bucket_name self) \<noteq> None \<or>
           (\<exists>msg. fst (head_bucket (bucket_name self) w) = Some (ClientError ''404'' msg) \<and>
                  fst (create_bucket (bucket_name self)
                         (print (''Creating bucket '' @ bucket_name self)
                            (snd (head_bucket (bucket_name self) w)))) = None)"
    and "s3_fault_at w (length (trace (snd (create_bucket_if_not_exists self w)))) = None"
  shows "fst (head_bucket (bucket_name self) (snd (create_bucket_if_not_exists self w))) = None \<and>
         create_bucket_if_not_exists self (snd (create_bucket_if_not_exists self w)) =
           (Inr (),
            print (''Bucket '' @ bucket_name self @ '' exists'')
              (call (Head_bucket (bucket_name self)) (snd (create_bucket_if_not_exists self w)))) \<and>
         length (filter is_create (drop (length (trace w)) (trace (snd (ensure_twice self w))))) \<le> 1"
proof -
  let ?b = "bucket_name self"
  let ?w1 = "snd (create_bucket_if_not_exists self w)"
  have ex: "buckets ?w1 ?b \<noteq> None"
    using assms(1) ensure_keeps_bucket [of w ?b self] ensure_created [of self w] by blast
  have nf: "s3_fault_at ?w1 (length (trace ?w1)) = None"
    using assms(2) by (simp add: ensure_faults)
  have probe: "fst (head_bucket ?b ?w1) = None"
    using ex nf by (simp add: head_bucket_def)
  have second: "create_bucket_if_not_exists self ?w1 =
      (Inr (), print (''Bucket '' @ ?b @ '' exists'') (call (Head_bucket ?b) ?w1))"
    by (rule ensure_existing [OF ex nf])
  have twice: "trace (snd (ensure_twice self w)) = trace ?w1 \<or>
               trace (snd (ensure_twice self w)) = trace ?w1 @ [Head_bucket ?b]"
  proof -
    obtain r where r: "create_bucket_if_not_exists self w = (r, ?w1)"
      by (cases "create_bucket_if_not_exists self w") simp
    have "ensure_twice self w =
            (case r of Inl e \<Rightarrow> (Inl e, ?w1) | Inr u \<Rightarrow> create_bucket_if_not_exists self ?w1)"
      unfolding ensure_twice_def by (subst r) (simp split: sum.splits)
    then show ?thesis
      by (cases r) (simp_all add: second print_def call_def)
  qed
  have "length (filter is_create (drop (length (trace w)) (trace (snd (ensure_twice self w))))) \<le> 1"
    using twice ensure_trace [of self w] by auto
  then show ?thesis using probe second by simp
qed

theorem second_ensure_creates_nothing_witness:
  "fst (head_bucket ''weather'' (snd (create_bucket_if_not_exists example_dashboard no_bucket))) = None \<and>
   trace (snd (ensure_twice example_dashboard no_bucket)) =
     [Head_bucket ''weather'', Create_bucket ''weather'', Head_bucket ''weather''] \<and>
   console (snd (ensure_twice example_dashboard no_bucket)) =
     [''Creating bucket weather'', ''Successfully created bucket weather'',
      ''Bucket weather exists'']"
proof -
  have b: "bucket_name example_dashboard = ''weather''" by (simp add: example_dashboard_def)
  have first: "create_bucket_if_not_exists example_dashboard no_bucket =
     (Inr (),
      \<lparr>http_at = (\<lambda>i. ok JNull), s3_fault_at = (\<lambda>i. None), plt_fault_at = (\<lambda>i. None),
       time_at = (\<lambda>i. example_time),
       buckets = [''weather'' \<mapsto> Map.empty],
       trace = [Head_bucket ''weather'', Create_bucket ''weather''],
       console = [''Creating bucket weather'', ''Successfully created bucket weather'']\<rparr>)"
    by (simp add: create_bucket_if_not_exists_def s3_defs b no_bucket_def world_of_def)
  have h1: "buckets no_bucket (bucket_name example_dashboard) \<noteq> None \<or>
           (\<exists>msg. fst (head_bucket (bucket_name example_dashboard) no_bucket) =
                    Some (ClientError ''404'' msg) \<and>
                  fst (create_bucket (bucket_name example_dashboard)
                         (print (''Creating bucket '' @ bucket_name example_dashboard)
                            (snd (head_bucket (bucket_name example_dashboard) no_bucket)))) = None)"
    by (simp add: s3_defs b no_bucket_def world_of_def)
  have h2: "s3_fault_at no_bucket
              (length (trace (snd (create_bucket_if_not_exists example_dashboard no_bucket)))) = None"
    by (simp add: no_bucket_def world_of_def)
  show ?thesis
    using second_ensure_creates_nothing [OF h1 h2]
    by (simp add: ensure_twice_def first b print_def call_def)
qed

text \<open>
  Claim C8 as stated fails when the first creation is rejected: the bucket is still
  absent, the second probe reports 404 again, and the second call creates again.
\<close>

theorem failed_creation_is_repeated_counterexample:
  "length (filter is_create (trace (snd (ensure_twice example_dashboard creation_fails)))) = 2"
  by (simp add: ensure_twice_def create_bucket_if_not_exists_def s3_defs example_dashboard_def
      creation_fails_def world_of_def)

section \<open>The weather client\<close>

lemmas fetch_defs = fetch_weather_def fetch_forecast_def requests_get_def response_json_def
  raise_for_status_def call_def print_def

text \<open>
  Claim C7, amended. Each of \<^verbatim>\<open>fetch_weather\<close> and \<^verbatim>\<open>fetch_forecast\<close> issues
  exactly one GET, to its own URL, with the parameters \<^verbatim>\<open>q\<close>, \<^verbatim>\<open>appid\<close> and
  \<^verbatim>\<open>units = imperial\<close>. On a 2xx answer whose body parses it returns the parsed body
  and prints nothing. When the request fails with a \<^verbatim>\<open>RequestException\<close>, or the
  status is 4xx or 5xx, it returns \<^verbatim>\<open>None\<close>, prints one error line, and raises
  nothing.
\<close>

theorem fetch_outcomes:
  "trace (snd (fetch_weather self city w)) =
     trace w @
     [Http_get ''http://api.openweathermap.org/data/2.5/weather''
        [(''q'', city), (''appid'', api_key self), (''units'', ''imperial'')]] \<and>
   trace (snd (fetch_forecast self city w)) =
     trace w @
     [Http_get ''http://api.openweathermap.org/data/2.5/forecast''
        [(''q'', city), (''appid'', api_key self), (''units'', ''imperial'')]] \<and>
   (http_at w (length (trace w)) = Inr r \<and> 200 \<le> status_code r \<and> status_code r < 300 \<and>
    json_body r = Inr v \<longrightarrow>
      fst (fetch_weather self city w) = Inr v \<and>
      console (snd (fetch_weather self city w)) = console w \<and>
      fst (fetch_forecast self city w) = Inr v \<and>
      console (snd (fetch_forecast self city w)) = console w) \<and>
   (http_at w (length (trace w)) = Inl (RequestException m) \<or>
    (http_at w (length (trace w)) = Inr r \<and> 400 \<le> status_code r \<and> status_code r < 600) \<longrightarrow>
      fst (fetch_weather self city w) = Inr JNull \<and>
      (\<exists>msg. console (snd (fetch_weather self city w)) =
               console w @ [''Error fetching weather data: '' @ msg]) \<and>
      fst (fetch_forecast self city w) = Inr JNull \<and>
      (\<exists>msg. console (snd (fetch_forecast self city w)) =
               console w @ [''Error fetching weather forecast: '' @ msg]))"
proof (intro conjI impI)
  show "trace (snd (fetch_weather self city w)) =
     trace w @
     [Http_get ''http://api.openweathermap.org/data/2.5/weather''
        [(''q'', city), (''appid'', api_key self), (''units'', ''imperial'')]]"
    using fetch_weather_trace [of self city w] by (simp add: query_params_def)
  show "trace (snd (fetch_forecast self city w)) =
     trace w @
     [Http_get ''http://api.openweathermap.org/data/2.5/forecast''
        [(''q'', city), (''appid'', api_key self), (''units'', ''imperial'')]]"
    using fetch_forecast_trace [of self city w] by (simp add: query_params_def)
next
  assume a: "http_at w (length (trace w)) = Inr r \<and> 200 \<le> status_code r \<and> status_code r < 300 \<and>
    json_body r = Inr v"
  then show "fst (fetch_weather self city w) = Inr v"
    and "console (snd (fetch_weather self city w)) = console w"
    and "fst (fetch_forecast self city w) = Inr v"
    and "console (snd (fetch_forecast self city w)) = console w"
    by (simp_all add: fetch_defs)
next
  assume a: "http_at w (length (trace w)) = Inl (RequestException m) \<or>
    (http_at w (length (trace w)) = Inr r \<and> 400 \<le> status_code r \<and> status_code r < 600)"
  then show "fst (fetch_weather self city w) = Inr JNull"
    and "fst (fetch_forecast self city w) = Inr JNull"
    by (auto simp add: fetch_defs)
  from a show "\<exists>msg. console (snd (fetch_weather self city w)) =
               console w @ [''Error fetching weather data: '' @ msg]"
    by (auto simp add: fetch_defs)
  from a show "\<exists>msg. console (snd (fetch_forecast self city w)) =
               console w @ [''Error fetching weather forecast: '' @ msg]"
    by (auto simp add: fetch_defs)
qed

theorem fetch_outcomes_witness:
  "fst (fetch_weather example_dashboard ''Seattle'' forecast_down) = Inr example_current \<and>
   console (snd (fetch_weather example_dashboard ''Seattle'' forecast_down)) = [] \<and>
   fst (fetch_forecast example_dashboard ''Seattle'' offline) = Inr JNull \<and>
   fst (fetch_weather example_dashboard ''Seattle'' unauthorized) = Inr JNull \<and>
   trace (snd (fetch_weather example_dashboard ''Seattle'' unauthorized)) =
     [Http_get ''http://api.openweathermap.org/data/2.5/weather''
        [(''q'', ''Seattle''), (''appid'', ''key''), (''units'', ''imperial'')]]"
proof -
  have h1: "http_at forecast_down (length (trace forecast_down)) =
              Inr \<lparr>status_code = 200, json_body = Inr example_current\<rparr> \<and>
            200 \<le> status_code \<lparr>status_code = 200, json_body = Inr example_current\<rparr> \<and>
            status_code \<lparr>status_code = 200, json_body = Inr example_current\<rparr> < 300 \<and>
            json_body \<lparr>status_code = 200, json_body = Inr example_current\<rparr> = Inr example_current"
    by (simp add: forecast_down_def world_of_def ok_def)
  have h2: "http_at offline (length (trace offline)) = Inl (RequestException ''connection refused'')"
    by (simp add: offline_def world_of_def)
  let ?r = "\<lparr>status_code = 401,
              json_body = Inr (JObj [(''cod'', JNum 401), (''message'', JStr ''Invalid API key'')])\<rparr>"
  have h3: "http_at unauthorized (length (trace unauthorized)) = Inr ?r \<and>
            400 \<le> status_code ?r \<and> status_code ?r < 600"
    by (simp add: unauthorized_def world_of_def)
  have t: "trace unauthorized = []" "console forecast_down = []"
    by (simp_all add: unauthorized_def forecast_down_def world_of_def)
  have k: "api_key example_dashboard = ''key''" by (simp add: example_dashboard_def)
  show ?thesis
    using fetch_outcomes [of example_dashboard "''Seattle''" forecast_down
            "\<lparr>status_code = 200, json_body = Inr example_current\<rparr>" example_current] h1
      fetch_outcomes [of example_dashboard "''Seattle''" offline _ _  "''connection refused''"] h2
      fetch_outcomes [of example_dashboard "''Seattle''" unauthorized ?r] h3
    by (simp add: t k)
qed

text \<open>
  Claim C7 as stated fails for a status outside 2xx that \<^verbatim>\<open>raise_for_status\<close> lets
  pass: with a final status 300 and a JSON body, both fetches return the body, not
  \<^verbatim>\<open>None\<close>, and print nothing.
\<close>

theorem other_status_counterexample:
  "fst (fetch_weather example_dashboard ''Seattle'' multiple_choices) =
     Inr (JObj [(''cod'', JNum 300)]) \<and>
   console (snd (fetch_weather example_dashboard ''Seattle'' multiple_choices)) = [] \<and>
   fst (fetch_forecast example_dashboard ''Seattle'' multiple_choices) =
     Inr (JObj [(''cod'', JNum 300)]) \<and>
   console (snd (fetch_forecast example_dashboard ''Seattle'' multiple_choices)) = []"
  by (simp add: fetch_defs multiple_choices_def world_of_def)

section \<open>The timestamp\<close>

lemma digit_char_is_digit: "is_digit (digit_char d)"
proof -
  have "d mod 10 < length ''0123456789''" by simp
  then have "''0123456789'' ! (d mod 10) \<in> set ''0123456789''" by (rule nth_mem)
  then show ?thesis by (simp only: is_digit_def digit_char_def)
qed

lemma digit_char_mod: "digit_char (n mod 10) = digit_char n"
  by (simp add: digit_char_def)

lemma digits_shape: "length (digits k n) = k \<and> list_all is_digit (digits k n)"
  by (induction k arbitrary: n) (simp_all add: digit_char_is_digit)

lemma digits_zero: "digits k 0 = replicate k (CHR ''0'')"
  by (induction k) (simp_all add: digit_char_def replicate_append_same)

lemma show_nat_small: "n < 10 \<Longrightarrow> show_nat n = [digit_char n]"
  by (subst show_nat.simps) simp

lemma show_nat_step: "10 \<le> n \<Longrightarrow> show_nat n = show_nat (n div 10) @ [digit_char n]"
  by (subst show_nat.simps) (simp add: digit_char_mod)

lemma show_nat_nonempty: "show_nat n \<noteq> []"
  by (subst show_nat.simps) simp

lemma zero_pad_show_nat:
  "0 < k \<Longrightarrow> n < 10 ^ k \<Longrightarrow> zero_pad k (show_nat n) = digits k n"
proof (induction k arbitrary: n)
  case 0
  then show ?case by simp
next
  case (Suc j)
  show ?case
  proof (cases "n < 10")
    case True
    then have "n div 10 = 0" by simp
    then show ?thesis
      using True by (simp add: show_nat_small zero_pad_def digits_zero digit_char_mod)
  next
    case False
    then have j: "0 < j" using Suc.prems by (cases j) auto
    have "n div 10 < 10 ^ j" using Suc.prems by (simp add: less_mult_imp_div_less mult.commute)
    from Suc.IH [OF j this] have ih: "zero_pad j (show_nat (n div 10)) = digits j (n div 10)" .
    have "zero_pad (Suc j) (show_nat (n div 10) @ [digit_char n]) =
            zero_pad j (show_nat (n div 10)) @ [digit_char n]"
      by (simp add: zero_pad_def)
    then show ?thesis using False ih by (simp add: show_nat_step digit_char_mod)
  qed
qed

lemma show_nat_four:
  assumes "1000 \<le> n" and "n < 10000"
  shows "show_nat n = digits 4 n"
proof -
  have a: "10 \<le> n" "10 \<le> n div 10" "10 \<le> n div 10 div 10" "n div 10 div 10 div 10 < 10"
    using assms by auto
  have "show_nat n =
          [digit_char (n div 10 div 10 div 10), digit_char (n div 10 div 10),
           digit_char (n div 10), digit_char n]"
    by (simp add: show_nat_step [OF a(1)] show_nat_step [OF a(2)] show_nat_step [OF a(3)]
        show_nat_small [OF a(4)])
  moreover have "digits 4 n =
          [digit_char (n div 10 div 10 div 10 mod 10), digit_char (n div 10 div 10 mod 10),
           digit_char (n div 10 mod 10), digit_char (n mod 10)]"
  proof -
    have "(4::nat) = Suc (Suc (Suc (Suc 0)))" by simp
    then show ?thesis by (simp only: digits.simps append.simps)
  qed
  ultimately show ?thesis by (simp only: digit_char_mod)
qed

lemma strftime_format:
  assumes "valid_datetime t" and "1000 \<le> year t"
  shows "strftime t = yyyymmdd_hhmmss t"
proof -
  from assms have b: "year t < 10000" "month t < 10 ^ 2" "day t < 10 ^ 2" "hour t < 10 ^ 2"
    "minute t < 10 ^ 2" "second t < 10 ^ 2"
    by (simp_all add: valid_datetime_def)
  have k: "(0::nat) < 2" by simp
  show ?thesis
    unfolding strftime_def yyyymmdd_hhmmss_def
    by (simp only: show_nat_four [OF assms(2) b(1)] zero_pad_show_nat [OF k b(2)]
        zero_pad_show_nat [OF k b(3)] zero_pad_show_nat [OF k b(4)]
        zero_pad_show_nat [OF k b(5)] zero_pad_show_nat [OF k b(6)])
qed

lemma matches_stampI:
  assumes "length p = 8" and "length q = 6" and "list_all is_digit p" and "list_all is_digit q"
  shows "matches_stamp (p @ CHR ''-'' # q)"
  using assms by (simp add: matches_stamp_def nth_append)

lemma format_matches: "matches_stamp (yyyymmdd_hhmmss t)"
proof -
  let ?p = "digits 4 (year t) @ digits 2 (month t) @ digits 2 (day t)"
  let ?q = "digits 2 (hour t) @ digits 2 (minute t) @ digits 2 (second t)"
  note sh = digits_shape [of 4 "year t"] digits_shape [of 2 "month t"] digits_shape [of 2 "day t"]
    digits_shape [of 2 "hour t"] digits_shape [of 2 "minute t"] digits_shape [of 2 "second t"]
  have s: "yyyymmdd_hhmmss t = ?p @ CHR ''-'' # ?q"
    by (simp add: yyyymmdd_hhmmss_def del: digits.simps)
  have l: "length ?p = 8" using sh by (simp del: digits.simps)
  have l2: "length ?q = 6" using sh by (simp del: digits.simps)
  have d1: "list_all is_digit ?p" using sh by (simp del: digits.simps)
  have d2: "list_all is_digit ?q" using sh by (simp del: digits.simps)
  show ?thesis unfolding s by (rule matches_stampI [OF l l2 d1 d2])
qed

lemma strftime_matches:
  assumes "valid_datetime t" and "1000 \<le> year t"
  shows "matches_stamp (strftime t)"
  by (simp add: strftime_format [OF assms] format_matches)

section \<open>The persistence writer\<close>

lemma strftime_example: "strftime example_time = ''20240105-030459''"
  by (simp add: strftime_def example_time_def zero_pad_def show_nat.simps digit_char_def)

lemma save_object:
  assumes "kvs \<noteq> []"
  shows "save_to_s3 self (JObj kvs) name w =
     (case upload self name (stamped w kvs) w of
        (None, w1) \<Rightarrow>
          (Inr True, stamped w kvs,
           print (''Successfully saved data for '' @ name @ '' to S3'') w1)
      | (Some (ClientError c m), w1) \<Rightarrow>
          (Inr False, stamped w kvs, print (''Error saving to S3: '' @ m) w1)
      | (Some e, w1) \<Rightarrow> (Inl e, stamped w kvs, w1))"
  using assms
  by (simp add: save_to_s3_def stamped_def upload_def split: prod.splits option.splits exn.splits)

lemma upload_world:
  "trace (snd (upload self name v w)) =
     trace w @ [Put_object (bucket_name self) (''weather-data/'' @ name @ ''.json'') v
                  ''application/json'']"
  "console (snd (upload self name v w)) = console w"
  "s3_fault_at (snd (upload self name v w)) = s3_fault_at w"
  "time_at (snd (upload self name v w)) = time_at w"
  by (simp_all add: upload_def put_object_def call_def split: option.splits)

text \<open>
  Claim C4, amended. With \<^verbatim>\<open>None\<close> for a payload \<^verbatim>\<open>save_to_s3\<close> returns
  \<^verbatim>\<open>False\<close> and leaves the world as it was. With a non-empty JSON object it returns
  \<^verbatim>\<open>True\<close> exactly when the upload succeeds, and \<^verbatim>\<open>False\<close>, after printing the
  error, when the upload raises a \<^verbatim>\<open>ClientError\<close>; the only exception that can leave
  the method is an exception of the upload that is no \<^verbatim>\<open>ClientError\<close>.
\<close>

theorem save_to_s3_result:
  "save_to_s3 self JNull name w = (Inr False, JNull, w) \<and>
   (kvs \<noteq> [] \<longrightarrow>
      (fst (save_to_s3 self (JObj kvs) name w) = Inr True \<longleftrightarrow>
         fst (upload self name (stamped w kvs) w) = None) \<and>
      (\<forall>c m. fst (upload self name (stamped w kvs) w) = Some (ClientError c m) \<longrightarrow>
         fst (save_to_s3 self (JObj kvs) name w) = Inr False \<and>
         console (snd (snd (save_to_s3 self (JObj kvs) name w))) =
           console w @ [''Error saving to S3: '' @ m]) \<and>
      (\<forall>e. fst (save_to_s3 self (JObj kvs) name w) = Inl e \<longrightarrow>
         fst (upload self name (stamped w kvs) w) = Some e \<and> (\<forall>c m. e \<noteq> ClientError c m)))"
proof (intro conjI impI)
  show "save_to_s3 self JNull name w = (Inr False, JNull, w)"
    by (simp add: save_to_s3_def)
next
  assume ne: "kvs \<noteq> []"
  obtain r w1 where u: "upload self name (stamped w kvs) w = (r, w1)"
    by (cases "upload self name (stamped w kvs) w")
  have c: "console w1 = console w" using upload_world(2) [of self name "stamped w kvs" w] u by simp
  note s = save_object [OF ne, of self name w, unfolded u]
  show "fst (save_to_s3 self (JObj kvs) name w) = Inr True \<longleftrightarrow>
         fst (upload self name (stamped w kvs) w) = None"
    unfolding s u by (simp split: option.splits exn.splits)
  show "\<forall>c m. fst (upload self name (stamped w kvs) w) = Some (ClientError c m) \<longrightarrow>
         fst (save_to_s3 self (JObj kvs) name w) = Inr False \<and>
         console (snd (snd (save_to_s3 self (JObj kvs) name w))) =
           console w @ [''Error saving to S3: '' @ m]"
    unfolding s u using c by (simp add: print_def split: option.splits exn.splits)
  show "\<forall>e. fst (save_to_s3 self (JObj kvs) name w) = Inl e \<longrightarrow>
         fst (upload self name (stamped w kvs) w) = Some e \<and> (\<forall>c m. e \<noteq> ClientError c m)"
    unfolding s u by (simp split: option.splits exn.splits)
qed

theorem save_to_s3_result_witness:
  "save_to_s3 example_dashboard JNull ''Seattle_current'' forecast_down =
     (Inr False, JNull, forecast_down) \<and>
   fst (save_to_s3 example_dashboard example_current ''Seattle_current'' forecast_down) = Inr True \<and>
   fst (save_to_s3 example_dashboard example_current ''Seattle_current'' forbidden) = Inr False \<and>
   console (snd (snd (save_to_s3 example_dashboard example_current ''Seattle_current'' forbidden))) =
     [''Error saving to S3: Forbidden'']"
proof -
  let ?kvs = "[(''name'', JStr ''Seattle''), (''main'', JObj [(''temp'', JNum 48)])]"
  have ne: "?kvs \<noteq> []" by simp
  have u1: "fst (upload example_dashboard ''Seattle_current'' (stamped forecast_down ?kvs)
              forecast_down) = None"
    by (simp add: upload_def put_object_def example_dashboard_def forecast_down_def world_of_def)
  have u2: "fst (upload example_dashboard ''Seattle_current'' (stamped forbidden ?kvs) forbidden) =
              Some (ClientError ''403'' ''Forbidden'')"
    by (simp add: upload_def put_object_def example_dashboard_def forbidden_def world_of_def)
  have c: "console forbidden = []" by (simp add: forbidden_def world_of_def)
  show ?thesis
    using save_to_s3_result [of example_dashboard "''Seattle_current''" forecast_down ?kvs]
      save_to_s3_result [of example_dashboard "''Seattle_current''" forbidden ?kvs] u1 u2 c
    by (simp add: example_current_def)
qed

text \<open>
  Claim C4 as stated fails: a storage error that is no \<^verbatim>\<open>ClientError\<close> leaves the
  method as an exception, and so does the \<^verbatim>\<open>TypeError\<close> of the timestamp
  assignment on a payload that is truthy but no dict.
\<close>

theorem save_to_s3_raises_counterexample:
  "fst (save_to_s3 example_dashboard example_current ''Seattle_current'' unreachable) =
     Inl (OtherError ''EndpointConnectionError'') \<and>
   fst (save_to_s3 example_dashboard (JArr [JNum 1]) ''Seattle_current'' forecast_down) =
     Inl (TypeError ''list indices must be integers or slices, not str'')"
  by (simp add: save_to_s3_def put_object_def example_current_def unreachable_def world_of_def)

lemma save_true_cases:
  assumes "save_to_s3 self payload name w = (Inr True, payload', w')"
  obtains kvs objs where "payload = JObj kvs" and "kvs \<noteq> []"
    and "payload' = stamped w kvs"
    and "buckets w (bucket_name self) = Some objs"
    and "buckets w' (bucket_name self) =
           Some (objs(''weather-data/'' @ name @ ''.json'' \<mapsto>
                   \<lparr>body = stamped w kvs, content_type = ''application/json''\<rparr>))"
proof (cases payload)
  case (JObj kvs)
  show ?thesis
  proof (cases "kvs = []")
    case True
    with JObj assms show ?thesis by (simp add: save_to_s3_def)
  next
    case False
    from assms [unfolded JObj save_object [OF False]]
    obtain objs where "buckets w (bucket_name self) = Some objs"
      and "payload' = stamped w kvs"
      and "buckets w' (bucket_name self) =
           Some (objs(''weather-data/'' @ name @ ''.json'' \<mapsto>
                   \<lparr>body = stamped w kvs, content_type = ''application/json''\<rparr>))"
      by (auto simp add: upload_def put_object_def call_def print_def
          split: option.splits exn.splits prod.splits)
    with JObj False that show ?thesis by blast
  qed
qed (use assms in \<open>auto simp add: save_to_s3_def split: if_splits\<close>)

lemma standard_update:
  assumes "standard_json (JObj kvs)" and "standard_json x"
  shows "standard_json (JObj (AList.update k x kvs))"
  using assms by (induction kvs) auto

lemma standard_stamped: "standard_json (JObj kvs) \<Longrightarrow> standard_json (stamped w kvs)"
  by (simp only: stamped_def) (rule standard_update, simp_all)

text \<open>
  Claim C5. When \<^verbatim>\<open>save_to_s3\<close> returns \<^verbatim>\<open>True\<close>, and the clock shows a valid
  date and time with a year of four digits, the bucket holds, under the key
  \<^verbatim>\<open>weather-data/{name}.json\<close> and with content type \<^verbatim>\<open>application/json\<close>, an
  object whose body has every field of the payload (each field other than
  \<^verbatim>\<open>timestamp\<close> with the payload's value) and a \<^verbatim>\<open>timestamp\<close> field. That
  field is the string the clock reading formats to, which is the reading written as
  \<^verbatim>\<open>YYYYMMDD-HHMMSS\<close> and matches \<^verbatim>\<open>\d{8}-\d{6}\<close>. The body is the value
  Python's parser reads back; when the payload holds no float that is not finite, the
  stored text is standard JSON.
\<close>

theorem persisted_body:
  assumes "save_to_s3 self payload name w = (Inr True, payload', w')"
    and "valid_datetime (time_at w (length (trace w)))"
    and "1000 \<le> year (time_at w (length (trace w)))"
  shows "\<exists>objs obj.
           buckets w' (bucket_name self) = Some objs \<and>
           objs (''weather-data/'' @ name @ ''.json'') = Some obj \<and>
           content_type obj = ''application/json'' \<and>
           (\<forall>k v. getitem payload k = Inr v \<longrightarrow> (\<exists>v'. getitem (body obj) k = Inr v')) \<and>
           (\<forall>k. k \<noteq> ''timestamp'' \<longrightarrow> getitem (body obj) k = getitem payload k) \<and>
           getitem (body obj) ''timestamp'' =
             Inr (JStr (strftime (time_at w (length (trace w))))) \<and>
           strftime (time_at w (length (trace w))) =
             yyyymmdd_hhmmss (time_at w (length (trace w))) \<and>
           matches_stamp (strftime (time_at w (length (trace w)))) \<and>
           (standard_json payload \<longrightarrow> standard_json (body obj))"
proof -
  from assms(1) obtain kvs objs where p: "payload = JObj kvs"
    and b: "buckets w' (bucket_name self) =
           Some (objs(''weather-data/'' @ name @ ''.json'' \<mapsto>
                   \<lparr>body = stamped w kvs, content_type = ''application/json''\<rparr>))"
    by (rule save_true_cases)
  let ?ts = "strftime (time_at w (length (trace w)))"
  let ?obj = "\<lparr>body = stamped w kvs, content_type = ''application/json''\<rparr>"
  have 1: "\<forall>k. k \<noteq> ''timestamp'' \<longrightarrow> getitem (body ?obj) k = getitem payload k"
    by (simp add: p stamped_def update_conv')
  have 2: "getitem (body ?obj) ''timestamp'' = Inr (JStr ?ts)"
    by (simp add: stamped_def update_conv')
  have 3: "\<forall>k v. getitem payload k = Inr v \<longrightarrow> (\<exists>v'. getitem (body ?obj) k = Inr v')"
  proof (intro allI impI)
    fix k v assume "getitem payload k = Inr v"
    then show "\<exists>v'. getitem (body ?obj) k = Inr v'"
      using 1 2 by (cases "k = ''timestamp''") auto
  qed
  have 4: "matches_stamp ?ts" by (rule strftime_matches [OF assms(2) assms(3)])
  have 5: "?ts = yyyymmdd_hhmmss (time_at w (length (trace w)))"
    by (rule strftime_format [OF assms(2) assms(3)])
  have 6: "standard_json payload \<longrightarrow> standard_json (body ?obj)"
    using standard_stamped [of kvs w] by (simp add: p del: standard_json.simps)
  show ?thesis
  proof (intro exI conjI)
    show "buckets w' (bucket_name self) =
            Some (objs(''weather-data/'' @ name @ ''.json'' \<mapsto> ?obj))" by (rule b)
    show "(objs(''weather-data/'' @ name @ ''.json'' \<mapsto> ?obj))
            (''weather-data/'' @ name @ ''.json'') = Some ?obj" by simp
    show "content_type ?obj = ''application/json''" by simp
    show "\<forall>k v. getitem payload k = Inr v \<longrightarrow> (\<exists>v'. getitem (body ?obj) k = Inr v')"
      by (rule 3)
    show "\<forall>k. k \<noteq> ''timestamp'' \<longrightarrow> getitem (body ?obj) k = getitem payload k" by (rule 1)
    show "getitem (body ?obj) ''timestamp'' = Inr (JStr ?ts)" by (rule 2)
    show "?ts = yyyymmdd_hhmmss (time_at w (length (trace w)))" by (rule 5)
    show "matches_stamp ?ts" by (rule 4)
    show "standard_json payload \<longrightarrow> standard_json (body ?obj)" by (rule 6)
  qed
qed

theorem persisted_body_witness:
  "\<exists>objs obj.
     buckets (snd (snd (save_to_s3 example_dashboard example_current ''Seattle_current''
                          forecast_down))) ''weather'' = Some objs \<and>
     objs ''weather-data/Seattle_current.json'' = Some obj \<and>
     content_type obj = ''application/json'' \<and>
     getitem (body obj) ''name'' = Inr (JStr ''Seattle'') \<and>
     getitem (body obj) ''timestamp'' = Inr (JStr ''20240105-030459'') \<and>
     yyyymmdd_hhmmss example_time = ''20240105-030459'' \<and>
     matches_stamp ''20240105-030459'' \<and>
     standard_json (body obj)"
proof -
  let ?s = "save_to_s3 example_dashboard example_current ''Seattle_current'' forecast_down"
  have h1: "?s = (Inr True, fst (snd ?s), snd (snd ?s))"
    by (simp add: save_to_s3_def put_object_def example_current_def example_dashboard_def
        forecast_down_def world_of_def)
  have now: "time_at forecast_down (length (trace forecast_down)) = example_time"
    by (simp add: forecast_down_def world_of_def)
  have h2: "valid_datetime (time_at forecast_down (length (trace forecast_down)))"
    by (simp add: now example_time_def valid_datetime_def)
  have h3: "1000 \<le> year (time_at forecast_down (length (trace forecast_down)))"
    by (simp add: now example_time_def)
  have n: "getitem example_current ''name'' = Inr (JStr ''Seattle'')"
    by (simp add: example_current_def)
  have b: "bucket_name example_dashboard = ''weather''" by (simp add: example_dashboard_def)
  have "\<exists>objs obj.
           buckets (snd (snd ?s)) (bucket_name example_dashboard) = Some objs \<and>
           objs (''weather-data/'' @ ''Seattle_current'' @ ''.json'') = Some obj \<and>
           content_type obj = ''application/json'' \<and>
           (\<forall>k v. getitem example_current k = Inr v \<longrightarrow> (\<exists>v'. getitem (body obj) k = Inr v')) \<and>
           (\<forall>k. k \<noteq> ''timestamp'' \<longrightarrow> getitem (body obj) k = getitem example_current k) \<and>
           getitem (body obj) ''timestamp'' =
             Inr (JStr (strftime (time_at forecast_down (length (trace forecast_down))))) \<and>
           strftime (time_at forecast_down (length (trace forecast_down))) =
             yyyymmdd_hhmmss (time_at forecast_down (length (trace forecast_down))) \<and>
           matches_stamp (strftime (time_at forecast_down (length (trace forecast_down)))) \<and>
           (standard_json example_current \<longrightarrow> standard_json (body obj))"
    by (rule persisted_body [OF h1 h2 h3])
  then obtain objs obj where
    a1: "buckets (snd (snd ?s)) (bucket_name example_dashboard) = Some objs" and
    a2: "objs (''weather-data/'' @ ''Seattle_current'' @ ''.json'') = Some obj" and
    a3: "content_type obj = ''application/json''" and
    a4: "\<forall>k. k \<noteq> ''timestamp'' \<longrightarrow> getitem (body obj) k = getitem example_current k" and
    a5: "getitem (body obj) ''timestamp'' =
           Inr (JStr (strftime (time_at forecast_down (length (trace forecast_down)))))" and
    a6: "strftime (time_at forecast_down (length (trace forecast_down))) =
           yyyymmdd_hhmmss (time_at forecast_down (length (trace forecast_down)))" and
    a7: "matches_stamp (strftime (time_at forecast_down (length (trace forecast_down))))" and
    a9: "standard_json example_current \<longrightarrow> standard_json (body obj)"
    by (elim exE conjE)
  have st: "standard_json example_current" by (simp add: example_current_def)
  have a8: "getitem (body obj) ''name'' = Inr (JStr ''Seattle'')" using a4 n by simp
  show ?thesis
  proof (intro exI conjI)
    show "buckets (snd (snd ?s)) ''weather'' = Some objs" using a1 by (simp only: b)
    show "objs ''weather-data/Seattle_current.json'' = Some obj" using a2 by simp
    show "content_type obj = ''application/json''" by (rule a3)
    show "getitem (body obj) ''name'' = Inr (JStr ''Seattle'')" by (rule a8)
    show "getitem (body obj) ''timestamp'' = Inr (JStr ''20240105-030459'')"
      using a5 by (simp only: now strftime_example)
    show "yyyymmdd_hhmmss example_time = ''20240105-030459''"
      using a6 by (simp only: now strftime_example)
    show "matches_stamp ''20240105-030459''"
      using a7 by (simp only: now strftime_example)
    show "standard_json (body obj)" using a9 st by blast
  qed
qed

text \<open>
  Claim C9, amended. After \<^verbatim>\<open>save_to_s3\<close> on a non-empty JSON object, whatever the
  upload does (success, \<^verbatim>\<open>ClientError\<close>, any other exception), the caller's
  payload is the original with the \<^verbatim>\<open>timestamp\<close> field set: that field holds the
  formatted time and every other field is as before.
\<close>

theorem save_to_s3_stamps_payload:
  assumes "kvs \<noteq> []"
  shows "fst (snd (save_to_s3 self (JObj kvs) name w)) = stamped w kvs \<and>
         getitem (stamped w kvs) ''timestamp'' =
           Inr (JStr (strftime (time_at w (length (trace w))))) \<and>
         (\<forall>k. k \<noteq> ''timestamp'' \<longrightarrow> getitem (stamped w kvs) k = getitem (JObj kvs) k)"
proof -
  have "fst (snd (save_to_s3 self (JObj kvs) name w)) = stamped w kvs"
    unfolding save_object [OF assms] by (simp split: prod.splits option.splits exn.splits)
  then show ?thesis by (simp add: stamped_def update_conv')
qed

theorem save_to_s3_stamps_payload_witness:
  "fst (save_to_s3 example_dashboard example_current ''Seattle_current'' forbidden) = Inr False \<and>
   fst (snd (save_to_s3 example_dashboard example_current ''Seattle_current'' forbidden)) =
     JObj [(''name'', JStr ''Seattle''), (''main'', JObj [(''temp'', JNum 48)]),
           (''timestamp'', JStr ''20240105-030459'')]"
proof -
  let ?kvs = "[(''name'', JStr ''Seattle''), (''main'', JObj [(''temp'', JNum 48)])]"
  have ne: "?kvs \<noteq> []" by simp
  have f: "fst (save_to_s3 example_dashboard example_current ''Seattle_current'' forbidden) =
             Inr False"
    by (simp add: save_to_s3_def put_object_def example_current_def forbidden_def world_of_def)
  have s: "stamped forbidden ?kvs =
     JObj [(''name'', JStr ''Seattle''), (''main'', JObj [(''temp'', JNum 48)]),
           (''timestamp'', JStr ''20240105-030459'')]"
    by (simp add: stamped_def forbidden_def world_of_def strftime_example)
  show ?thesis
    using save_to_s3_stamps_payload [OF ne, of example_dashboard "''Seattle_current''" forbidden] f s
    by (simp add: example_current_def)
qed

text \<open>
  Claim C9 as stated fails for the empty JSON object: it is not \<^verbatim>\<open>None\<close>, yet the
  method returns before the assignment and the payload has no \<^verbatim>\<open>timestamp\<close>.
\<close>

theorem empty_object_not_stamped_counterexample:
  "JObj [] \<noteq> JNull \<and>
   fst (snd (save_to_s3 example_dashboard (JObj []) ''Seattle_current'' forecast_down)) = JObj [] \<and>
   getitem (fst (snd (save_to_s3 example_dashboard (JObj []) ''Seattle_current'' forecast_down)))
     ''timestamp'' = Inl (KeyError ''timestamp'')"
  by (simp add: save_to_s3_def)

section \<open>A city whose fetches both succeed\<close>

lemma fetch_weather_oracles:
  "s3_fault_at (snd (fetch_weather self city w)) = s3_fault_at w"
  "time_at (snd (fetch_weather self city w)) = time_at w"
  by (simp_all add: fetch_defs split: sum.splits exn.splits)

lemma fetch_forecast_oracles:
  "s3_fault_at (snd (fetch_forecast self city w)) = s3_fault_at w"
  "time_at (snd (fetch_forecast self city w)) = time_at w"
  by (simp_all add: fetch_defs split: sum.splits exn.splits)

lemma save_caught:
  assumes "kvs \<noteq> []" and "client_error_or_none (s3_fault_at w (length (trace w)))"
  shows "\<exists>saved w'.
           save_to_s3 self (JObj kvs) name w = (Inr saved, stamped w kvs, w') \<and>
           trace w' =
             trace w @ [Put_object (bucket_name self) (''weather-data/'' @ name @ ''.json'')
                          (stamped w kvs) ''application/json''] \<and>
           s3_fault_at w' = s3_fault_at w \<and> time_at w' = time_at w"
proof -
  obtain r w1 where u: "upload self name (stamped w kvs) w = (r, w1)"
    by (cases "upload self name (stamped w kvs) w")
  have w1: "trace w1 =
             trace w @ [Put_object (bucket_name self) (''weather-data/'' @ name @ ''.json'')
                          (stamped w kvs) ''application/json'']"
    "s3_fault_at w1 = s3_fault_at w" "time_at w1 = time_at w"
    using upload_world [of self name "stamped w kvs" w] u by simp_all
  have r: "client_error_or_none r"
    using u assms(2) by (auto simp add: upload_def put_object_def split: option.splits)
  show ?thesis
  proof (cases r)
    case None
    then show ?thesis using w1 by (auto simp add: save_object [OF assms(1)] u print_def)
  next
    case (Some e)
    with r obtain c m where "e = ClientError c m" by (cases e) simp_all
    with Some show ?thesis using w1 by (auto simp add: save_object [OF assms(1)] u print_def)
  qed
qed

lemma visualize_trace:
  "\<exists>evs. trace (snd (visualize_weather p w)) = trace w @ evs \<and> filter is_put evs = []"
proof (cases "timestamps p")
  case (Inl e)
  then show ?thesis by (simp add: visualize_weather_def)
next
  case xs: (Inr xs)
  show ?thesis
  proof (cases "temps p")
    case (Inl e)
    then show ?thesis using xs by (simp add: visualize_weather_def)
  next
    case (Inr ys)
    obtain n where n: "trace (snd (plt_all (chart xs ys) w)) = trace w @ take n (chart xs ys)"
      using plt_all_trace by blast
    have "\<forall>ev \<in> set (chart xs ys). \<not> is_put ev" by (simp add: chart_def)
    then have "\<forall>ev \<in> set (take n (chart xs ys)). \<not> is_put ev"
      using set_take_subset [of n "chart xs ys"] by blast
    then have "filter is_put (take n (chart xs ys)) = []" by (simp add: filter_empty_conv)
    then show ?thesis using xs Inr n by (simp add: visualize_weather_def)
  qed
qed

text \<open>
  Claim C1, amended. When both fetches of a city return a non-empty JSON object and
  neither upload raises an exception other than \<^verbatim>\<open>ClientError\<close>, the round of the
  loop calls, after the two GET requests, \<^verbatim>\<open>put_object\<close> exactly twice: first with
  the key \<^verbatim>\<open>weather-data/{city}_current.json\<close> and the stamped current conditions,
  then with the key \<^verbatim>\<open>weather-data/{city}_forecast.json\<close> and the stamped forecast.
  It then calls \<^verbatim>\<open>visualize_weather\<close> once, on the stamped forecast, and ends as
  that call ends; the visualizer writes nothing to storage.
\<close>

theorem both_fetched_two_writes:
  assumes h1: "fetch_weather self city
                 (print (CHR 0x0A # ''Fetching weather for '' @ city @ ''...'') w) =
               (Inr (JObj kvs1), w1)"
    and h2: "fetch_forecast self city w1 = (Inr (JObj kvs2), w2)"
    and ne1: "kvs1 \<noteq> []" and ne2: "kvs2 \<noteq> []"
    and f1: "client_error_or_none (s3_fault_at w (length (trace w) + 2))"
    and f2: "client_error_or_none (s3_fault_at w (length (trace w) + 3))"
  shows "\<exists>w4.
     trace w4 =
       trace w @
       [Http_get ''http://api.openweathermap.org/data/2.5/weather'' (query_params self city),
        Http_get ''http://api.openweathermap.org/data/2.5/forecast'' (query_params self city),
        Put_object (bucket_name self) (''weather-data/'' @ city @ ''_current.json'')
          (JObj (AList.update ''timestamp''
                   (JStr (strftime (time_at w (length (trace w) + 2)))) kvs1))
          ''application/json'',
        Put_object (bucket_name self) (''weather-data/'' @ city @ ''_forecast.json'')
          (JObj (AList.update ''timestamp''
                   (JStr (strftime (time_at w (length (trace w) + 3)))) kvs2))
          ''application/json''] \<and>
     main_city self city w =
       (case visualize_weather
               (JObj (AList.update ''timestamp''
                        (JStr (strftime (time_at w (length (trace w) + 3)))) kvs2)) w4 of
          (Inl e, w5) \<Rightarrow> (Inl e, w5)
        | (Inr u, w5) \<Rightarrow>
            (Inr (), print (''Weather and forecast data for '' @ city @ '' saved to S3!'') w5)) \<and>
     filter is_put (drop (length (trace w)) (trace (snd (main_city self city w)))) =
       [Put_object (bucket_name self) (''weather-data/'' @ city @ ''_current.json'')
          (JObj (AList.update ''timestamp''
                   (JStr (strftime (time_at w (length (trace w) + 2)))) kvs1))
          ''application/json'',
        Put_object (bucket_name self) (''weather-data/'' @ city @ ''_forecast.json'')
          (JObj (AList.update ''timestamp''
                   (JStr (strftime (time_at w (length (trace w) + 3)))) kvs2))
          ''application/json'']"
proof -
  let ?w0 = "print (CHR 0x0A # ''Fetching weather for '' @ city @ ''...'') w"
  let ?G1 = "Http_get ''http://api.openweathermap.org/data/2.5/weather'' (query_params self city)"
  let ?G2 = "Http_get ''http://api.openweathermap.org/data/2.5/forecast'' (query_params self city)"
  let ?S1 = "JObj (AList.update ''timestamp''
                   (JStr (strftime (time_at w (length (trace w) + 2)))) kvs1)"
  let ?S2 = "JObj (AList.update ''timestamp''
                   (JStr (strftime (time_at w (length (trace w) + 3)))) kvs2)"
  let ?P1 = "Put_object (bucket_name self) (''weather-data/'' @ city @ ''_current.json'') ?S1
               ''application/json''"
  let ?P2 = "Put_object (bucket_name self) (''weather-data/'' @ city @ ''_forecast.json'') ?S2
               ''application/json''"
  have e1: "w1 = snd (fetch_weather self city ?w0)" using h1 by simp
  have e2: "w2 = snd (fetch_forecast self city w1)" using h2 by simp
  have t2: "trace w2 = trace w @ [?G1, ?G2]" by (rule two_fetches_trace(1) [OF h1 h2])
  have o2: "s3_fault_at w2 = s3_fault_at w" "time_at w2 = time_at w"
    unfolding e2 fetch_forecast_oracles unfolding e1 fetch_weather_oracles
    by (simp_all add: print_def)
  have st1: "stamped w2 kvs1 = ?S1" by (simp add: stamped_def o2 t2)
  have c1: "client_error_or_none (s3_fault_at w2 (length (trace w2)))"
    using f1 by (simp add: o2 t2)
  from save_caught [OF ne1 c1, of self "city @ ''_current''"]
  obtain saved1 w3 where s1: "save_to_s3 self (JObj kvs1) (city @ ''_current'') w2 = (Inr saved1, ?S1, w3)"
    and t3: "trace w3 = trace w @ [?G1, ?G2, ?P1]"
    and o3: "s3_fault_at w3 = s3_fault_at w" "time_at w3 = time_at w"
    by (auto simp add: st1 t2 o2)
  have st2: "stamped w3 kvs2 = ?S2" by (simp add: stamped_def o3 t3 numeral_3_eq_3)
  have c2: "client_error_or_none (s3_fault_at w3 (length (trace w3)))"
    using f2 by (simp add: o3 t3 numeral_3_eq_3)
  from save_caught [OF ne2 c2, of self "city @ ''_forecast''"]
  obtain saved2 w4 where s2: "save_to_s3 self (JObj kvs2) (city @ ''_forecast'') w3 = (Inr saved2, ?S2, w4)"
    and t4: "trace w4 = trace w @ [?G1, ?G2, ?P1, ?P2]"
    by (auto simp add: st2 t3)
  let ?fin = "case visualize_weather ?S2 w4 of
          (Inl e, w5) \<Rightarrow> (Inl e, w5)
        | (Inr u, w5) \<Rightarrow>
            (Inr (), print (''Weather and forecast data for '' @ city @ '' saved to S3!'') w5)"
  have m: "main_city self city w = ?fin"
    unfolding main_city_def h1 using ne1 ne2 by (simp add: h2 s1 s2)
  have tf: "trace (snd ?fin) = trace (snd (visualize_weather ?S2 w4))"
    by (cases "visualize_weather ?S2 w4"; cases "fst (visualize_weather ?S2 w4)")
       (simp_all add: print_def)
  obtain evs where evs: "trace (snd (visualize_weather ?S2 w4)) = trace w4 @ evs"
      "filter is_put evs = []"
    using visualize_trace [of ?S2 w4] by blast
  have p: "filter is_put (drop (length (trace w)) (trace (snd (main_city self city w)))) =
             [?P1, ?P2]"
    unfolding m tf evs(1) t4 using evs(2) by simp
  show ?thesis
    using t4 m p by blast
qed

theorem both_fetched_two_writes_witness:
  "filter is_put (trace (snd (main_city example_dashboard ''Seattle'' both_up))) =
     [Put_object ''weather'' ''weather-data/Seattle_current.json''
        (JObj [(''name'', JStr ''Seattle''), (''main'', JObj [(''temp'', JNum 48)]),
               (''timestamp'', JStr ''20240105-030459'')])
        ''application/json'',
      Put_object ''weather'' ''weather-data/Seattle_forecast.json''
        (JObj [(''list'',
                JArr [JObj [(''dt_txt'', JStr ''2024-01-01 00:00:00''),
                            (''main'', JObj [(''temp'', JNum 32.0)])],
                      JObj [(''dt_txt'', JStr ''2024-01-01 03:00:00''),
                            (''main'', JObj [(''temp'', JNum 35.5)])]]),
               (''timestamp'', JStr ''20240105-030459'')])
        ''application/json'']"
proof -
  let ?kc = "[(''name'', JStr ''Seattle''), (''main'', JObj [(''temp'', JNum 48)])]"
  let ?kf = "[(''list'',
                JArr [JObj [(''dt_txt'', JStr ''2024-01-01 00:00:00''),
                            (''main'', JObj [(''temp'', JNum 32.0)])],
                      JObj [(''dt_txt'', JStr ''2024-01-01 03:00:00''),
                            (''main'', JObj [(''temp'', JNum 35.5)])]])]"
  let ?w0 = "print (CHR 0x0A # ''Fetching weather for '' @ ''Seattle'' @ ''...'') both_up"
  let ?w1 = "snd (fetch_weather example_dashboard ''Seattle'' ?w0)"
  let ?w2 = "snd (fetch_forecast example_dashboard ''Seattle'' ?w1)"
  have h1: "fetch_weather example_dashboard ''Seattle'' ?w0 = (Inr (JObj ?kc), ?w1)"
    by (simp add: fetch_defs both_up_def world_of_def ok_def example_current_def)
  have h2: "fetch_forecast example_dashboard ''Seattle'' ?w1 = (Inr (JObj ?kf), ?w2)"
    by (simp add: fetch_defs both_up_def world_of_def ok_def example_forecast_def)
  have ne1: "?kc \<noteq> []" and ne2: "?kf \<noteq> []" by simp_all
  have f1: "client_error_or_none (s3_fault_at both_up (length (trace both_up) + 2))"
    and f2: "client_error_or_none (s3_fault_at both_up (length (trace both_up) + 3))"
    by (simp_all add: both_up_def world_of_def)
  have t: "trace both_up = []" "\<And>i. time_at both_up i = example_time"
    by (simp_all add: both_up_def world_of_def)
  have b: "bucket_name example_dashboard = ''weather''" by (simp add: example_dashboard_def)
  from both_fetched_two_writes [OF h1 h2 ne1 ne2 f1 f2]
  have "filter is_put (drop (length (trace both_up))
          (trace (snd (main_city example_dashboard ''Seattle'' both_up)))) =
       [Put_object (bucket_name example_dashboard) (''weather-data/'' @ ''Seattle'' @ ''_current.json'')
          (JObj (AList.update ''timestamp''
                   (JStr (strftime (time_at both_up (length (trace both_up) + 2)))) ?kc))
          ''application/json'',
        Put_object (bucket_name example_dashboard) (''weather-data/'' @ ''Seattle'' @ ''_forecast.json'')
          (JObj (AList.update ''timestamp''
                   (JStr (strftime (time_at both_up (length (trace both_up) + 3)))) ?kf))
          ''application/json'']"
    by (elim exE conjE)
  then show ?thesis by (simp add: t b strftime_example)
qed

text \<open>
  Claim C1 as stated fails when a fetch returns the empty JSON object: both payloads are
  present (neither is \<^verbatim>\<open>None\<close>), yet the round writes nothing and prints the
  failure line.
\<close>

theorem empty_object_skips_city_counterexample:
  "fst (fetch_weather example_dashboard ''Seattle''
          (print (CHR 0x0A # ''Fetching weather for Seattle...'') empty_current)) = Inr (JObj []) \<and>
   JObj [] \<noteq> JNull \<and>
   fst (fetch_forecast example_dashboard ''Seattle''
          (snd (fetch_weather example_dashboard ''Seattle''
                  (print (CHR 0x0A # ''Fetching weather for Seattle...'') empty_current)))) =
     Inr example_forecast \<and>
   example_forecast \<noteq> JNull \<and>
   filter is_put (trace (snd (main_city example_dashboard ''Seattle'' empty_current))) = [] \<and>
   console (snd (main_city example_dashboard ''Seattle'' empty_current)) =
     [CHR 0x0A # ''Fetching weather for Seattle...'', ''Failed to fetch weather data for Seattle'']"
  by (simp add: main_city_def fetch_defs empty_current_def world_of_def ok_def example_forecast_def)

section \<open>A city whose fetch fails\<close>

lemma extends_refl: "extends w w"
  by (simp add: extends_def)

lemma extends_trans: "extends a b \<Longrightarrow> extends b c \<Longrightarrow> extends a c"
  by (auto simp add: extends_def)

lemma extends_print: "extends a b \<Longrightarrow> extends a (print s b)"
  by (simp add: extends_def print_def)

lemma save_extends: "extends w (snd (snd (save_to_s3 self p name w)))"
  by (auto simp add: extends_def save_to_s3_def put_object_def call_def print_def
      split: sum.splits option.splits exn.splits)

lemma visualize_extends: "extends w (snd (visualize_weather p w))"
  using visualize_trace [of p w] by (auto simp add: extends_def)

lemma fetch_forecast_extends: "extends w (snd (fetch_forecast self city w))"
  by (simp add: extends_def fetch_forecast_trace)

lemma main_city_extends:
  "extends (snd (fetch_weather self city
                   (print (CHR 0x0A # ''Fetching weather for '' @ city @ ''...'') w)))
     (snd (main_city self city w))"
proof -
  let ?w0 = "print (CHR 0x0A # ''Fetching weather for '' @ city @ ''...'') w"
  obtain r1 w1 where f1: "fetch_weather self city ?w0 = (r1, w1)"
    by (cases "fetch_weather self city ?w0")
  obtain r2 w2 where f2: "fetch_forecast self city w1 = (r2, w2)"
    by (cases "fetch_forecast self city w1")
  have e2: "extends w1 w2" using fetch_forecast_extends [of w1 self city] f2 by simp
  show ?thesis
  proof (cases r1)
    case (Inl e)
    then show ?thesis unfolding main_city_def f1 by (simp add: extends_refl)
  next
    case wd: (Inr wd)
    show ?thesis
    proof (cases r2)
      case (Inl e)
      then show ?thesis unfolding main_city_def f1 using wd e2 by (simp add: f2)
    next
      case fd: (Inr fd)
      show ?thesis
      proof (cases "truthy wd \<and> truthy fd")
        case False
        then show ?thesis
          unfolding main_city_def f1 using wd fd e2 by (auto simp add: f2 extends_print)
      next
        case True
        obtain r3 wd' w3 where s1: "save_to_s3 self wd (city @ ''_current'') w2 = (r3, wd', w3)"
          by (cases "save_to_s3 self wd (city @ ''_current'') w2") auto
        obtain r4 fd' w4 where s2: "save_to_s3 self fd (city @ ''_forecast'') w3 = (r4, fd', w4)"
          by (cases "save_to_s3 self fd (city @ ''_forecast'') w3") auto
        obtain r5 w5 where v: "visualize_weather fd' w4 = (r5, w5)"
          by (cases "visualize_weather fd' w4")
        have e3: "extends w1 w3"
          using save_extends [of w2 self wd "city @ ''_current''"] s1 e2
          by (auto intro: extends_trans)
        have e4: "extends w1 w4"
          using save_extends [of w3 self fd "city @ ''_forecast''"] s2 e3
          by (auto intro: extends_trans)
        have e5: "extends w1 w5"
          using visualize_extends [of w4 fd'] v e4 by (auto intro: extends_trans)
        show ?thesis
          unfolding main_city_def f1 using wd fd True e3 e4 e5
          by (cases r3; cases r4; cases r5) (simp_all add: f2 s1 s2 v extends_print)
      qed
    qed
  qed
qed

lemma main_city_first_get:
  "\<exists>evs. trace (snd (main_city self city w)) =
           trace w @
           Http_get ''http://api.openweathermap.org/data/2.5/weather'' (query_params self city) #
           evs"
  using main_city_extends [of self city w]
  by (auto simp add: extends_def fetch_weather_trace print_def)

lemma main_loop_first_get:
  "\<exists>evs. trace (snd (main_loop self (city # rest) w)) =
           trace w @
           Http_get ''http://api.openweathermap.org/data/2.5/weather'' (query_params self city) #
           evs"
proof -
  have ext: "extends w' (snd (main_loop self cs w'))" for cs w'
  proof (induction cs arbitrary: w')
    case Nil
    then show ?case by (simp add: extends_refl)
  next
    case (Cons c cs)
    obtain r w1 where m: "main_city self c w' = (r, w1)" by (cases "main_city self c w'")
    have "extends w' w1"
      using main_city_first_get [of self c w'] m by (auto simp add: extends_def)
    then show ?case
      using Cons.IH [of w1] m by (cases r) (auto intro: extends_trans)
  qed
  obtain r w1 where m: "main_city self city w = (r, w1)" by (cases "main_city self city w")
  obtain evs where evs: "trace w1 =
      trace w @
      Http_get ''http://api.openweathermap.org/data/2.5/weather'' (query_params self city) # evs"
    using main_city_first_get [of self city w] m by auto
  show ?thesis
  proof (cases r)
    case (Inl e)
    then show ?thesis using m evs by simp
  next
    case (Inr u)
    then have "snd (main_loop self (city # rest) w) = snd (main_loop self rest w1)"
      using m by simp
    then show ?thesis using ext [of w1 rest] evs by (auto simp add: extends_def)
  qed
qed

text \<open>
  Claim C2, amended. When both fetches of a city return to the loop and either returns
  \<^verbatim>\<open>None\<close>, the round of the loop for that city calls nothing but the two GET
  requests (no storage write, no plotting call, the object store unchanged), prints the
  failure line for the city, and the loop goes on: with a city following in the list,
  the next call after the two requests is the request for that city's current
  conditions.
\<close>

theorem absent_fetch_skips_city:
  assumes "fetch_weather self city
             (print (CHR 0x0A # ''Fetching weather for '' @ city @ ''...'') w) = (Inr a, w1)"
    and "fetch_forecast self city w1 = (Inr b, w2)"
    and "a = JNull \<or> b = JNull"
  shows "main_city self city w =
           (Inr (), print (''Failed to fetch weather data for '' @ city) w2) \<and>
         trace (snd (main_city self city w)) =
           trace w @
           [Http_get ''http://api.openweathermap.org/data/2.5/weather'' (query_params self city),
            Http_get ''http://api.openweathermap.org/data/2.5/forecast'' (query_params self city)] \<and>
         buckets (snd (main_city self city w)) = buckets w \<and>
         console (snd (main_city self city w)) =
           console w2 @ [''Failed to fetch weather data for '' @ city] \<and>
         main_loop self (city # rest) w =
           main_loop self rest (print (''Failed to fetch weather data for '' @ city) w2) \<and>
         (\<exists>evs. trace (snd (main_loop self (city # following # rest) w)) =
                  trace w @
                  [Http_get ''http://api.openweathermap.org/data/2.5/weather''
                     (query_params self city),
                   Http_get ''http://api.openweathermap.org/data/2.5/forecast''
                     (query_params self city),
                   Http_get ''http://api.openweathermap.org/data/2.5/weather''
                     (query_params self following)] @ evs)"
proof -
  let ?w' = "print (''Failed to fetch weather data for '' @ city) w2"
  have falsy: "\<not> truthy a \<or> \<not> truthy b" using assms(3) by auto
  have m: "main_city self city w = (Inr (), ?w')"
    by (rule main_city_falsy [OF assms(1) assms(2) falsy])
  note tf = two_fetches_trace [OF assms(1) assms(2)]
  have t': "trace ?w' =
           trace w @
           [Http_get ''http://api.openweathermap.org/data/2.5/weather'' (query_params self city),
            Http_get ''http://api.openweathermap.org/data/2.5/forecast'' (query_params self city)]"
    using tf(1) by (simp add: print_def)
  have l: "main_loop self (city # cs) w = main_loop self cs ?w'" for cs
    by (simp add: m)
  obtain evs where "trace (snd (main_loop self (following # rest) ?w')) =
      trace ?w' @
      Http_get ''http://api.openweathermap.org/data/2.5/weather'' (query_params self following) # evs"
    using main_loop_first_get [of self following rest ?w'] by blast
  then have nxt: "\<exists>evs. trace (snd (main_loop self (city # following # rest) w)) =
                  trace w @
                  [Http_get ''http://api.openweathermap.org/data/2.5/weather''
                     (query_params self city),
                   Http_get ''http://api.openweathermap.org/data/2.5/forecast''
                     (query_params self city),
                   Http_get ''http://api.openweathermap.org/data/2.5/weather''
                     (query_params self following)] @ evs"
    unfolding l t' by simp
  show ?thesis
    using tf nxt l [of rest] by (simp add: m print_def)
qed

theorem absent_fetch_skips_city_witness:
  "fst (main_loop example_dashboard [''Seattle'', ''New York''] forecast_down) = Inr () \<and>
   trace (snd (main_loop example_dashboard [''Seattle'', ''New York''] forecast_down)) =
     [Http_get ''http://api.openweathermap.org/data/2.5/weather''
        [(''q'', ''Seattle''), (''appid'', ''key''), (''units'', ''imperial'')],
      Http_get ''http://api.openweathermap.org/data/2.5/forecast''
        [(''q'', ''Seattle''), (''appid'', ''key''), (''units'', ''imperial'')],
      Http_get ''http://api.openweathermap.org/data/2.5/weather''
        [(''q'', ''New York''), (''appid'', ''key''), (''units'', ''imperial'')],
      Http_get ''http://api.openweathermap.org/data/2.5/forecast''
        [(''q'', ''New York''), (''appid'', ''key''), (''units'', ''imperial'')]] \<and>
   console (snd (main_city example_dashboard ''Seattle'' forecast_down)) =
     [CHR 0x0A # ''Fetching weather for Seattle...'',
      ''Error fetching weather forecast: connection refused'',
      ''Failed to fetch weather data for Seattle'']"
proof -
  let ?w0 = "print (CHR 0x0A # ''Fetching weather for '' @ ''Seattle'' @ ''...'') forecast_down"
  let ?w1 = "snd (fetch_weather example_dashboard ''Seattle'' ?w0)"
  let ?w2 = "snd (fetch_forecast example_dashboard ''Seattle'' ?w1)"
  let ?w' = "print (''Failed to fetch weather data for '' @ ''Seattle'') ?w2"
  have h1: "fetch_weather example_dashboard ''Seattle'' ?w0 = (Inr example_current, ?w1)"
    by (simp add: fetch_defs forecast_down_def world_of_def ok_def)
  have h2: "fetch_forecast example_dashboard ''Seattle'' ?w1 = (Inr JNull, ?w2)"
    by (simp add: fetch_defs forecast_down_def world_of_def ok_def)
  have h3: "example_current = JNull \<or> JNull = JNull" by simp
  have c: "console ?w2 =
             [CHR 0x0A # ''Fetching weather for Seattle...'',
              ''Error fetching weather forecast: connection refused'']"
    by (simp add: fetch_defs forecast_down_def world_of_def ok_def)
  have ny: "fst (main_loop example_dashboard [''New York''] ?w') = Inr () \<and>
        trace (snd (main_loop example_dashboard [''New York''] ?w')) =
          trace ?w' @
          [Http_get ''http://api.openweathermap.org/data/2.5/weather''
             [(''q'', ''New York''), (''appid'', ''key''), (''units'', ''imperial'')],
           Http_get ''http://api.openweathermap.org/data/2.5/forecast''
             [(''q'', ''New York''), (''appid'', ''key''), (''units'', ''imperial'')]]"
    by (simp add: main_city_def fetch_defs query_params_def example_dashboard_def
        forecast_down_def world_of_def ok_def)
  have k: "api_key example_dashboard = ''key''" by (simp add: example_dashboard_def)
  have t: "trace forecast_down = []" by (simp add: forecast_down_def world_of_def)
  from absent_fetch_skips_city [OF h1 h2 h3, of "[''New York'']" "''New York''"]
  have r: "trace (snd (main_city example_dashboard ''Seattle'' forecast_down)) =
           trace forecast_down @
           [Http_get ''http://api.openweathermap.org/data/2.5/weather''
              (query_params example_dashboard ''Seattle''),
            Http_get ''http://api.openweathermap.org/data/2.5/forecast''
              (query_params example_dashboard ''Seattle'')]"
    and cs: "console (snd (main_city example_dashboard ''Seattle'' forecast_down)) =
           console ?w2 @ [''Failed to fetch weather data for '' @ ''Seattle'']"
    and l: "main_loop example_dashboard (''Seattle'' # [''New York'']) forecast_down =
           main_loop example_dashboard [''New York''] ?w'"
    and m: "main_city example_dashboard ''Seattle'' forecast_down = (Inr (), ?w')"
    by blast+
  have tw: "trace ?w' =
           [Http_get ''http://api.openweathermap.org/data/2.5/weather''
              [(''q'', ''Seattle''), (''appid'', ''key''), (''units'', ''imperial'')],
            Http_get ''http://api.openweathermap.org/data/2.5/forecast''
              [(''q'', ''Seattle''), (''appid'', ''key''), (''units'', ''imperial'')]]"
    using r unfolding m by (simp add: t k query_params_def)
  show ?thesis
  proof (intro conjI)
    show "fst (main_loop example_dashboard [''Seattle'', ''New York''] forecast_down) = Inr ()"
      unfolding l using ny by blast
    show "trace (snd (main_loop example_dashboard [''Seattle'', ''New York''] forecast_down)) =
     [Http_get ''http://api.openweathermap.org/data/2.5/weather''
        [(''q'', ''Seattle''), (''appid'', ''key''), (''units'', ''imperial'')],
      Http_get ''http://api.openweathermap.org/data/2.5/forecast''
        [(''q'', ''Seattle''), (''appid'', ''key''), (''units'', ''imperial'')],
      Http_get ''http://api.openweathermap.org/data/2.5/weather''
        [(''q'', ''New York''), (''appid'', ''key''), (''units'', ''imperial'')],
      Http_get ''http://api.openweathermap.org/data/2.5/forecast''
        [(''q'', ''New York''), (''appid'', ''key''), (''units'', ''imperial'')]]"
      unfolding l using ny tw by simp
    show "console (snd (main_city example_dashboard ''Seattle'' forecast_down)) =
     [CHR 0x0A # ''Fetching weather for Seattle...'',
      ''Error fetching weather forecast: connection refused'',
      ''Failed to fetch weather data for Seattle'']"
      using cs c by simp
  qed
qed

text \<open>
  Claim C2 as stated fails when the other fetch raises: the fetch of the current
  conditions returns \<^verbatim>\<open>None\<close>, the fetch of the forecast raises an exception that
  its \<^verbatim>\<open>except\<close> clause does not name, and the exception leaves the loop: no failure
  line is printed for the city and the next city is never fetched.
\<close>

theorem raising_fetch_stops_loop_counterexample:
  "fst (fetch_weather example_dashboard ''Seattle''
          (print (CHR 0x0A # ''Fetching weather for Seattle...'') forecast_crashes)) = Inr JNull \<and>
   fst (main_city example_dashboard ''Seattle'' forecast_crashes) = Inl (OtherError ''ValueError'') \<and>
   console (snd (main_city example_dashboard ''Seattle'' forecast_crashes)) =
     [CHR 0x0A # ''Fetching weather for Seattle...'',
      ''Error fetching weather data: connection refused''] \<and>
   fst (main_loop example_dashboard [''Seattle'', ''New York''] forecast_crashes) =
     Inl (OtherError ''ValueError'') \<and>
   trace (snd (main_loop example_dashboard [''Seattle'', ''New York''] forecast_crashes)) =
     [Http_get ''http://api.openweathermap.org/data/2.5/weather''
        [(''q'', ''Seattle''), (''appid'', ''key''), (''units'', ''imperial'')],
      Http_get ''http://api.openweathermap.org/data/2.5/forecast''
        [(''q'', ''Seattle''), (''appid'', ''key''), (''units'', ''imperial'')]]"
  by (simp add: main_city_def fetch_defs query_params_def example_dashboard_def
      forecast_crashes_def world_of_def)

end
